theory Spec2Isabelle
  imports Complex_Main
begin

section \<open>JavaScript values\<close>

text \<open>
  Strings are lists of bytes: ASCII characters as they are, every other character by its
  UTF-8 encoding. A JavaScript \<open>number\<close> is a finite value, an infinity or NaN. Finite doubles are rationals; the zero of either sign is \<open>Num 0\<close>.
  An optional parameter or a missing property (\<open>undefined\<close>) is \<open>None\<close>.
\<close>

datatype number = Num rat | PosInf | NegInf | NaN

datatype jsval =
    JUndefined
  | JNull
  | JBool bool
  | JNum number
  | JStr string
  | JArr "jsval list"
  | JObj "(string \<times> jsval) list"

text \<open>Truthiness, as the operator \<open>||\<close> tests it.\<close>

fun truthy_number :: "number \<Rightarrow> bool" where
  "truthy_number (Num r) = (r \<noteq> 0)"
| "truthy_number PosInf = True"
| "truthy_number NegInf = True"
| "truthy_number NaN = False"

fun truthy :: "jsval \<Rightarrow> bool" where
  "truthy JUndefined = False"
| "truthy JNull = False"
| "truthy (JBool b) = b"
| "truthy (JNum n) = truthy_number n"
| "truthy (JStr s) = (s \<noteq> [])"
| "truthy (JArr xs) = True"
| "truthy (JObj kvs) = True"

text \<open>
  \<open>a || b\<close> on an optional string and on an optional number: the left operand when it is
  truthy (a non-empty string; a number other than 0 and NaN), the right operand otherwise.
\<close>

fun str_or :: "string option \<Rightarrow> string \<Rightarrow> string" where
  "str_or None d = d"
| "str_or (Some s) d = (if s = [] then d else s)"

fun num_or :: "number option \<Rightarrow> number \<Rightarrow> number" where
  "num_or None d = d"
| "num_or (Some n) d = (if truthy_number n then n else d)"

text \<open>
  An optional value when it is truthy, and nothing otherwise: what \<open>||\<close> and \<open>!\<close> see of it.
\<close>

fun if_truthy_str :: "string option \<Rightarrow> string option" where
  "if_truthy_str None = None"
| "if_truthy_str (Some s) = (if s = [] then None else Some s)"

fun if_truthy_num :: "number option \<Rightarrow> number option" where
  "if_truthy_num None = None"
| "if_truthy_num (Some n) = (if truthy_number n then Some n else None)"

text \<open>
  The arguments of one request as the client supplies them, and the request
  configuration axios works on: the arguments, the instance's base URL and timeout, and
  the headers.
\<close>

datatype http_method = GET | POST | DELETE

record RequestArgs =
  "method" :: http_method
  url :: string
  data :: "jsval option"

record AxiosRequestConfig = RequestArgs +
  baseURL :: string
  req_timeout :: number
  req_headers :: "string \<rightharpoonup> string"

text \<open>
  What the code takes from its platform, as parameters of the model:
  \<^item> the process environment;
  \<^item> \<open>parseInt(s, 10)\<close>, \<open>parseFloat\<close> and the printing of numbers, which round to IEEE
    doubles;
  \<^item> \<open>toUpperCase\<close> on a string that holds a character outside ASCII, which follows the
    Unicode case mappings and can change the length of the string;
  \<^item> the headers of axios: \<open>mergedHeaders\<close> are the headers of a request configuration
    when the request interceptors run (the headers the instance was created with, merged
    with the defaults of axios for the request), \<open>wireHeaders\<close> the headers axios sends
    for the configuration the interceptors leave (it adds a content type for a body,
    its user agent and others).
\<close>

record runtime =
  env :: "string \<rightharpoonup> string"
  parseInt :: "string \<Rightarrow> number"
  parseFloat :: "string \<Rightarrow> number"
  numberToString :: "number \<Rightarrow> string"
  unicodeUpperCase :: "string \<Rightarrow> string"
  mergedHeaders :: "(string \<rightharpoonup> string) \<Rightarrow> RequestArgs \<Rightarrow> (string \<rightharpoonup> string)"
  wireHeaders :: "AxiosRequestConfig \<Rightarrow> (string \<rightharpoonup> string)"

section \<open>Errors\<close>

text \<open>
  The error classes of \<open>client.ts\<close> and the two built-in classes the code can raise.
  \<open>super_class\<close> is the \<open>extends\<close> clause of each class declaration.
\<close>

datatype error_class =
    Error
  | TypeError
  | KachyError
  | KachyConnectionError
  | KachyAuthenticationError
  | KachyResponseError

fun super_class :: "error_class \<Rightarrow> error_class option" where
  "super_class Error = None"
| "super_class TypeError = Some Error"
| "super_class KachyError = Some Error"
| "super_class KachyConnectionError = Some KachyError"
| "super_class KachyAuthenticationError = Some KachyError"
| "super_class KachyResponseError = Some KachyError"

text \<open>
  The prototype chain of a class, from the class itself upwards. No class of the hierarchy
  has more than two ancestors.
\<close>

fun chain_upto :: "nat \<Rightarrow> error_class \<Rightarrow> error_class list" where
  "chain_upto 0 c = [c]"
| "chain_upto (Suc n) c =
     (case super_class c of None \<Rightarrow> [c] | Some p \<Rightarrow> c # chain_upto n p)"

definition class_chain :: "error_class \<Rightarrow> error_class list" where
  "class_chain c = chain_upto (Suc (Suc 0)) c"

record js_error =
  cls :: error_class
  name :: string
  message :: string

definition instanceof :: "js_error \<Rightarrow> error_class \<Rightarrow> bool" where
  "instanceof e C = (C \<in> set (class_chain (cls e)))"

definition new_Error :: "string \<Rightarrow> js_error" where
  "new_Error m = \<lparr>cls = Error, name = ''Error'', message = m\<rparr>"

definition new_TypeError :: "string \<Rightarrow> js_error" where
  "new_TypeError m = \<lparr>cls = TypeError, name = ''TypeError'', message = m\<rparr>"

text \<open>Each constructor calls \<open>super(message)\<close> and then sets \<open>this.name\<close>.\<close>

definition new_KachyError :: "string \<Rightarrow> js_error" where
  "new_KachyError m = (new_Error m)\<lparr>cls := KachyError, name := ''KachyError''\<rparr>"

definition new_KachyConnectionError :: "string \<Rightarrow> js_error" where
  "new_KachyConnectionError m =
     (new_KachyError m)\<lparr>cls := KachyConnectionError, name := ''KachyConnectionError''\<rparr>"

definition new_KachyAuthenticationError :: "string \<Rightarrow> js_error" where
  "new_KachyAuthenticationError m =
     (new_KachyError m)\<lparr>cls := KachyAuthenticationError, name := ''KachyAuthenticationError''\<rparr>"

definition new_KachyResponseError :: "string \<Rightarrow> js_error" where
  "new_KachyResponseError m =
     (new_KachyError m)\<lparr>cls := KachyResponseError, name := ''KachyResponseError''\<rparr>"

section \<open>Configuration (config.ts)\<close>

text \<open>
  \<open>KachyConfigOptions\<close>: every field is optional. \<open>KachyConfig\<close> is parametric in how the
  headers object is held: by value (a mapping) where only its contents matter, by
  reference into a store of objects where aliasing matters.
\<close>

record KachyConfigOptions =
  opt_baseUrl :: "string option"
  opt_timeout :: "number option"
  opt_maxRetries :: "number option"
  opt_retryDelay :: "number option"
  opt_poolSize :: "number option"
  opt_userAgent :: "string option"
  opt_headers :: "(string \<rightharpoonup> string) option"

definition no_options :: KachyConfigOptions where
  "no_options = \<lparr>opt_baseUrl = None, opt_timeout = None, opt_maxRetries = None,
     opt_retryDelay = None, opt_poolSize = None, opt_userAgent = None, opt_headers = None\<rparr>"

record 'h KachyConfig =
  accessKey :: string
  baseUrl :: string
  timeout :: number
  maxRetries :: number
  retryDelay :: number
  poolSize :: number
  userAgent :: string
  headers :: 'h

definition default_headers :: "string \<Rightarrow> (string \<rightharpoonup> string)" where
  "default_headers ua =
     [''User-Agent'' \<mapsto> ua, ''Accept'' \<mapsto> ''application/json'',
      ''Content-Type'' \<mapsto> ''application/json'']"

text \<open>
  The constructor. The access key is optional in the model because JavaScript callers can
  pass \<open>undefined\<close> (\<open>init(process.env.KACHY_ACCESS_KEY)\<close>); \<open>!accessKey\<close> holds for
  \<open>undefined\<close> and for the empty string.
\<close>

definition KachyConfig_new ::
  "runtime \<Rightarrow> string option \<Rightarrow> KachyConfigOptions \<Rightarrow> js_error + (string \<rightharpoonup> string) KachyConfig"
where
  "KachyConfig_new rt key options =
     (case if_truthy_str key of
        None \<Rightarrow> Inl (new_Error ''KACHY_ACCESS_KEY is required'')
      | Some k \<Rightarrow>
          let ua = str_or (opt_userAgent options) ''kachy-valkey-node/0.1.0'' in
          Inr \<lparr>accessKey = k,
               baseUrl = str_or (opt_baseUrl options)
                           (str_or (env rt ''KACHY_BASE_URL'') ''https://api.klache.net''),
               timeout = num_or (opt_timeout options)
                           (parseInt rt (str_or (env rt ''KACHY_TIMEOUT'') ''30'')),
               maxRetries = num_or (opt_maxRetries options)
                           (parseInt rt (str_or (env rt ''KACHY_MAX_RETRIES'') ''3'')),
               retryDelay = num_or (opt_retryDelay options)
                           (parseFloat rt (str_or (env rt ''KACHY_RETRY_DELAY'') ''1.0'')),
               poolSize = num_or (opt_poolSize options)
                           (parseInt rt (str_or (env rt ''KACHY_POOL_SIZE'') ''10'')),
               userAgent = ua,
               headers = (case opt_headers options of
                            Some h \<Rightarrow> h
                          | None \<Rightarrow> default_headers ua)\<rparr>)"

definition fromEnv :: "runtime \<Rightarrow> js_error + (string \<rightharpoonup> string) KachyConfig" where
  "fromEnv rt =
     (let accessKey = env rt ''KACHY_ACCESS_KEY'' in
      case if_truthy_str accessKey of
        None \<Rightarrow> Inl (new_Error ''KACHY_ACCESS_KEY environment variable is required'')
      | Some k \<Rightarrow> KachyConfig_new rt accessKey no_options)"

text \<open>
  \<open>toObject\<close> builds a fresh object whose \<open>headers\<close> is a new object holding the
  properties of \<open>this.headers\<close> (object spread). Header objects live in a store; a
  reference is an index into it, every reference an object holds is below the length of
  the store, and a new object is allocated at the end.
\<close>

type_synonym ref = nat
type_synonym store = "(string \<rightharpoonup> string) list"

definition toObject :: "ref KachyConfig \<Rightarrow> store \<Rightarrow> ref KachyConfig \<times> store" where
  "toObject this s =
     (\<lparr>accessKey = accessKey this,
       baseUrl = baseUrl this,
       timeout = timeout this,
       maxRetries = maxRetries this,
       retryDelay = retryDelay this,
       poolSize = poolSize this,
       userAgent = userAgent this,
       headers = length s\<rparr>,
      s @ [s ! headers this])"

text \<open>Assigning to a property of the object behind a reference, and deleting one.\<close>

definition set_property :: "ref \<Rightarrow> string \<Rightarrow> string \<Rightarrow> store \<Rightarrow> store" where
  "set_property r k v s = s[r := (s ! r)(k \<mapsto> v)]"

definition delete_property :: "ref \<Rightarrow> string \<Rightarrow> store \<Rightarrow> store" where
  "delete_property r k s = s[r := (s ! r)(k := None)]"

section \<open>The HTTP transport\<close>

text \<open>
  The axios instance is the repository's only way to the network. What the network and
  the server do with a request is a parameter: a \<open>transport\<close> takes the request as axios
  sends it (the arguments the code supplied, under the headers that go on the wire) and
  the state of the outside world, and settles the request with a response or rejects it
  with an error.
\<close>

record AxiosResponse =
  status :: nat
  statusText :: string
  resp_data :: jsval

record AxiosError =
  response :: "AxiosResponse option"
  code :: "string option"
  err_message :: string

datatype outcome = Fulfilled AxiosResponse | Rejected AxiosError

type_synonym 'w transport = "AxiosRequestConfig \<Rightarrow> 'w \<Rightarrow> outcome \<times> 'w"

record 'w AxiosInstance =
  inst_baseURL :: string
  inst_timeout :: number
  inst_headers :: "string \<rightharpoonup> string"
  merge_headers :: "(string \<rightharpoonup> string) \<Rightarrow> RequestArgs \<Rightarrow> (string \<rightharpoonup> string)"
  on_request :: "AxiosRequestConfig \<Rightarrow> AxiosRequestConfig"
  wire_headers :: "AxiosRequestConfig \<Rightarrow> (string \<rightharpoonup> string)"
  on_rejected :: "AxiosError \<Rightarrow> js_error"
  adapter :: "'w transport"

text \<open>
  \<open>instance.request(args)\<close>: the instance's base URL, timeout and headers are merged
  under the arguments, the headers with the defaults of axios; the request interceptor
  runs; axios settles the headers it sends and the transport settles the request; a
  response passes the response interceptor unchanged, and a rejection goes through the
  interceptor's error handler, which always throws.
\<close>

definition axios_request ::
  "'w AxiosInstance \<Rightarrow> RequestArgs \<Rightarrow> 'w \<Rightarrow> (js_error + AxiosResponse) \<times> 'w"
where
  "axios_request inst a w =
     (let merged = \<lparr>method = method a, url = url a, data = data a,
                     baseURL = inst_baseURL inst, req_timeout = inst_timeout inst,
                     req_headers = merge_headers inst (inst_headers inst) a\<rparr>;
          intercepted = on_request inst merged;
          wire = intercepted\<lparr>req_headers := wire_headers inst intercepted\<rparr>
      in case adapter inst wire w of
           (Fulfilled r, w') \<Rightarrow> (Inr r, w')
         | (Rejected e, w') \<Rightarrow> (Inl (on_rejected inst e), w'))"

text \<open>A transport that also records, in order, every request handed to it.\<close>

definition recording :: "'w transport \<Rightarrow> (AxiosRequestConfig list \<times> 'w) transport" where
  "recording t req lw =
     (case t req (snd lw) of (out, w') \<Rightarrow> (out, (fst lw @ [req], w')))"

text \<open>The outcomes of a list of requests handed to a transport one after the other.\<close>

fun feed :: "'w transport \<Rightarrow> AxiosRequestConfig list \<Rightarrow> 'w \<Rightarrow> outcome list \<times> 'w" where
  "feed t [] w = ([], w)"
| "feed t (r # rs) w =
     (case t r w of (out, w') \<Rightarrow> (case feed t rs w' of (outs, w'') \<Rightarrow> (out # outs, w'')))"

section \<open>String built-ins\<close>

text \<open>
  \<open>toUpperCase\<close>. On ASCII text the 26 lower-case letters change and nothing else does;
  a string with a character outside ASCII is upper-cased by the platform.
\<close>

definition ascii :: "string \<Rightarrow> bool" where
  "ascii s = list_all (\<lambda>c. (of_char c :: nat) < 128) s"

definition toUpperChar :: "char \<Rightarrow> char" where
  "toUpperChar c =
     (case map_of (zip ''abcdefghijklmnopqrstuvwxyz'' ''ABCDEFGHIJKLMNOPQRSTUVWXYZ'') c of
        Some u \<Rightarrow> u
      | None \<Rightarrow> c)"

definition toUpperCase :: "runtime \<Rightarrow> string \<Rightarrow> string" where
  "toUpperCase rt s = (if ascii s then map toUpperChar s else unicodeUpperCase rt s)"

text \<open>
  \<open>encodeURIComponent\<close>: letters, digits and \<open>- _ . ! ~ * ' ( )\<close> stay, every other
  byte of the UTF-8 encoding becomes \<open>%\<close> and its two upper-case hexadecimal digits.
\<close>

definition unreserved :: "char \<Rightarrow> bool" where
  "unreserved c =
     (c \<in> set (''ABCDEFGHIJKLMNOPQRSTUVWXYZabcdefghijklmnopqrstuvwxyz0123456789-_.!~*()''
               @ [CHR 0x27]))"

definition hex_digit :: "nat \<Rightarrow> char" where
  "hex_digit n = ''0123456789ABCDEF'' ! (n mod 16)"

definition percent_encode :: "char \<Rightarrow> string" where
  "percent_encode c =
     (if unreserved c then [c]
      else [CHR ''%'', hex_digit (of_char c div 16), hex_digit (of_char c mod 16)])"

definition encodeURIComponent :: "string \<Rightarrow> string" where
  "encodeURIComponent s = concat (map percent_encode s)"

text \<open>The decimal digits of a natural number, as a template literal prints a status code.\<close>

fun show_nat :: "nat \<Rightarrow> string" where
  "show_nat n =
     (if n < 10 then [''0123456789'' ! n]
      else show_nat (n div 10) @ [''0123456789'' ! (n mod 10)])"

text \<open>
  \<open>String(v)\<close>, as a template literal applies it. A plain object prints as
  \<open>[object Object]\<close> through the method it inherits; an object with an own property
  \<open>toString\<close> has no callable \<open>toString\<close> (a value read from JSON is never a function)
  and no \<open>valueOf\<close> that returns a primitive, so the conversion raises a TypeError. An
  array joins its elements with commas, \<open>null\<close> and \<open>undefined\<close> elements printing as
  nothing, and raises what the first failing element raises.
\<close>

fun join_comma :: "string list \<Rightarrow> string" where
  "join_comma [] = []"
| "join_comma [x] = x"
| "join_comma (x # y # ys) = x @ '','' @ join_comma (y # ys)"

fun first_error :: "('e + 'a) list \<Rightarrow> 'e + 'a list" where
  "first_error [] = Inr []"
| "first_error (Inl e # xs) = Inl e"
| "first_error (Inr x # xs) = (case first_error xs of Inl e \<Rightarrow> Inl e | Inr ys \<Rightarrow> Inr (x # ys))"

fun js_toString :: "runtime \<Rightarrow> jsval \<Rightarrow> js_error + string" where
  "js_toString rt JUndefined = Inr ''undefined''"
| "js_toString rt JNull = Inr ''null''"
| "js_toString rt (JBool b) = Inr (if b then ''true'' else ''false'')"
| "js_toString rt (JNum n) = Inr (numberToString rt n)"
| "js_toString rt (JStr s) = Inr s"
| "js_toString rt (JArr xs) =
     (case first_error
             (map (\<lambda>x. if x = JNull \<or> x = JUndefined then Inr [] else js_toString rt x) xs) of
        Inl e \<Rightarrow> Inl e
      | Inr ss \<Rightarrow> Inr (join_comma ss))"
| "js_toString rt (JObj kvs) =
     (if map_of kvs ''toString'' = None then Inr ''[object Object]''
      else Inl (new_TypeError ''Cannot convert object to primitive value''))"

text \<open>
  Property reads. \<open>v?.k\<close> is \<open>undefined\<close> on \<open>null\<close> and \<open>undefined\<close>; \<open>v.k\<close> raises a
  TypeError there (its message is worded as Node.js words it). An object is a list of its
  properties in insertion order, with distinct names. The names read in this development (\<open>message\<close>, \<open>success\<close>, \<open>value\<close>,
  \<open>deleted\<close>, \<open>exists\<close>, \<open>ttl\<close>, \<open>result\<close>) are no properties of strings, numbers, booleans
  or arrays.
\<close>

fun optional_member :: "jsval \<Rightarrow> string \<Rightarrow> jsval" where
  "optional_member (JObj kvs) k = (case map_of kvs k of Some v \<Rightarrow> v | None \<Rightarrow> JUndefined)"
| "optional_member v k = JUndefined"

definition cannot_read :: "string \<Rightarrow> string \<Rightarrow> js_error" where
  "cannot_read what k =
     new_TypeError (''Cannot read properties of '' @ what @ '' (reading '' @ [CHR 0x27] @ k
                    @ [CHR 0x27] @ '')'')"

fun member_of :: "jsval \<Rightarrow> string \<Rightarrow> js_error + jsval" where
  "member_of JUndefined k = Inl (cannot_read ''undefined'' k)"
| "member_of JNull k = Inl (cannot_read ''null'' k)"
| "member_of v k = Inr (optional_member v k)"

section \<open>Client (client.ts)\<close>

fun times_1000 :: "number \<Rightarrow> number" where
  "times_1000 (Num r) = Num (r * 1000)"
| "times_1000 n = n"

text \<open>
  The error handler of the response interceptor; its value is the error it throws. With
  no response, \<open>error.response?.status\<close> is \<open>undefined\<close> and both comparisons on it are
  false, as they are for a response whose status is below 400; the tests on \<open>error.code\<close>
  follow. The message of the response error is a template literal: when the conversion
  of the body's message to a string raises, that error is thrown in place of the
  response error.
\<close>

definition connection_error :: "AxiosError \<Rightarrow> js_error" where
  "connection_error error =
     (if code error = Some ''ECONNABORTED'' then new_KachyConnectionError ''Request timeout''
      else if code error = Some ''ENOTFOUND'' \<or> code error = Some ''ECONNREFUSED'' then
        new_KachyConnectionError ''Connection failed''
      else new_KachyConnectionError (''Request failed: '' @ err_message error))"

definition response_error :: "runtime \<Rightarrow> AxiosError \<Rightarrow> js_error" where
  "response_error rt error =
     (case response error of
        None \<Rightarrow> connection_error error
      | Some r \<Rightarrow>
          if status r = 401 then new_KachyAuthenticationError ''Authentication failed''
          else if status r \<ge> 400 then
            (let m = optional_member (resp_data r) ''message'' in
             case (if truthy m then js_toString rt m else Inr (statusText r)) of
               Inl type_error \<Rightarrow> type_error
             | Inr text \<Rightarrow>
                 new_KachyResponseError (''API error '' @ show_nat (status r) @ '': '' @ text))
          else connection_error error)"

record 'w KachyClient =
  config :: "(string \<rightharpoonup> string) KachyConfig"
  httpClient :: "'w AxiosInstance"

definition createHttpClient ::
  "runtime \<Rightarrow> 'w transport \<Rightarrow> (string \<rightharpoonup> string) KachyConfig \<Rightarrow> 'w AxiosInstance"
where
  "createHttpClient rt axios cfg =
     \<lparr>inst_baseURL = baseUrl cfg,
      inst_timeout = times_1000 (timeout cfg),
      inst_headers = headers cfg,
      merge_headers = mergedHeaders rt,
      on_request = (\<lambda>req. req\<lparr>req_headers :=
                      (req_headers req)(''Authorization'' \<mapsto> ''Bearer '' @ accessKey cfg)\<rparr>),
      wire_headers = wireHeaders rt,
      on_rejected = response_error rt,
      adapter = axios\<rparr>"

definition KachyClient_new ::
  "runtime \<Rightarrow> 'w transport \<Rightarrow> (string \<rightharpoonup> string) KachyConfig \<Rightarrow> 'w KachyClient"
where
  "KachyClient_new rt axios cfg = \<lparr>config = cfg, httpClient = createHttpClient rt axios cfg\<rparr>"

definition makeRequest ::
  "'w KachyClient \<Rightarrow> RequestArgs \<Rightarrow> 'w \<Rightarrow> (js_error + jsval) \<times> 'w"
where
  "makeRequest c a w =
     (case axios_request (httpClient c) a w of
        (Inl error, w') \<Rightarrow> (Inl error, w')
      | (Inr resp, w') \<Rightarrow> (Inr (resp_data resp), w'))"

text \<open>\<open>(await this.makeRequest(args)).k\<close>: the request, then the read of one field.\<close>

definition request_field ::
  "'w KachyClient \<Rightarrow> RequestArgs \<Rightarrow> string \<Rightarrow> 'w \<Rightarrow> (js_error + jsval) \<times> 'w"
where
  "request_field c a k w =
     (case makeRequest c a w of
        (Inl error, w') \<Rightarrow> (Inl error, w')
      | (Inr result, w') \<Rightarrow> (member_of result k, w'))"

definition KachyClient_set ::
  "'w KachyClient \<Rightarrow> string \<Rightarrow> string \<Rightarrow> number option \<Rightarrow> 'w \<Rightarrow> (js_error + jsval) \<times> 'w"
where
  "KachyClient_set c key val ex w =
     (let data0 = [(''key'', JStr key), (''value'', JStr val)];
          data1 = (case ex of None \<Rightarrow> data0 | Some n \<Rightarrow> data0 @ [(''ex'', JNum n)])
      in request_field c \<lparr>method = POST, url = ''/valkey/set'', data = Some (JObj data1)\<rparr>
           ''success'' w)"

definition KachyClient_get :: "'w KachyClient \<Rightarrow> string \<Rightarrow> 'w \<Rightarrow> (js_error + jsval) \<times> 'w" where
  "KachyClient_get c key w =
     request_field c \<lparr>method = GET, url = ''/valkey/get/'' @ encodeURIComponent key,
                      data = None\<rparr> ''value'' w"

definition KachyClient_delete :: "'w KachyClient \<Rightarrow> string \<Rightarrow> 'w \<Rightarrow> (js_error + jsval) \<times> 'w" where
  "KachyClient_delete c key w =
     request_field c \<lparr>method = DELETE, url = ''/valkey/del/'' @ encodeURIComponent key,
                      data = None\<rparr> ''deleted'' w"

definition KachyClient_exists :: "'w KachyClient \<Rightarrow> string \<Rightarrow> 'w \<Rightarrow> (js_error + jsval) \<times> 'w" where
  "KachyClient_exists c key w =
     request_field c \<lparr>method = GET, url = ''/valkey/exists/'' @ encodeURIComponent key,
                      data = None\<rparr> ''exists'' w"

definition KachyClient_expire ::
  "'w KachyClient \<Rightarrow> string \<Rightarrow> number \<Rightarrow> 'w \<Rightarrow> (js_error + jsval) \<times> 'w"
where
  "KachyClient_expire c key seconds w =
     request_field c \<lparr>method = POST, url = ''/valkey/expire'',
                      data = Some (JObj [(''key'', JStr key), (''seconds'', JNum seconds)])\<rparr>
       ''success'' w"

definition KachyClient_ttl :: "'w KachyClient \<Rightarrow> string \<Rightarrow> 'w \<Rightarrow> (js_error + jsval) \<times> 'w" where
  "KachyClient_ttl c key w =
     request_field c \<lparr>method = GET, url = ''/valkey/ttl/'' @ encodeURIComponent key,
                      data = None\<rparr> ''ttl'' w"

text \<open>
  The raw command and the pipeline upper-case a command name, so they take the platform
  as an argument.
\<close>

definition KachyClient_redis ::
  "runtime \<Rightarrow> 'w KachyClient \<Rightarrow> string \<Rightarrow> jsval list \<Rightarrow> 'w \<Rightarrow> (js_error + jsval) \<times> 'w"
where
  "KachyClient_redis rt c command args w =
     request_field c \<lparr>method = POST, url = ''/valkey/exec'',
                      data = Some (JObj [(''command'', JStr (toUpperCase rt command)),
                                         (''args'', JArr args)])\<rparr>
       ''result'' w"

section \<open>Pipeline (pipeline.ts)\<close>

record PipelineCommand =
  command :: string
  args :: "jsval list"

record 'w KachyPipeline =
  client :: "'w KachyClient"
  commands :: "PipelineCommand list"

definition KachyPipeline_new :: "'w KachyClient \<Rightarrow> 'w KachyPipeline" where
  "KachyPipeline_new c = \<lparr>client = c, commands = []\<rparr>"

definition pipeline :: "'w KachyClient \<Rightarrow> 'w KachyPipeline" where
  "pipeline c = KachyPipeline_new c"

definition push :: "PipelineCommand \<Rightarrow> 'w KachyPipeline \<Rightarrow> 'w KachyPipeline" where
  "push cmd p = p\<lparr>commands := commands p @ [cmd]\<rparr>"

definition KachyPipeline_set ::
  "'w KachyPipeline \<Rightarrow> string \<Rightarrow> string \<Rightarrow> number option \<Rightarrow> 'w KachyPipeline"
where
  "KachyPipeline_set p key val ex =
     push \<lparr>command = ''SET'',
           args = (case ex of Some n \<Rightarrow> [JStr key, JStr val, JNum n]
                   | None \<Rightarrow> [JStr key, JStr val])\<rparr> p"

definition KachyPipeline_get :: "'w KachyPipeline \<Rightarrow> string \<Rightarrow> 'w KachyPipeline" where
  "KachyPipeline_get p key = push \<lparr>command = ''GET'', args = [JStr key]\<rparr> p"

definition KachyPipeline_delete :: "'w KachyPipeline \<Rightarrow> string \<Rightarrow> 'w KachyPipeline" where
  "KachyPipeline_delete p key = push \<lparr>command = ''DEL'', args = [JStr key]\<rparr> p"

definition KachyPipeline_exists :: "'w KachyPipeline \<Rightarrow> string \<Rightarrow> 'w KachyPipeline" where
  "KachyPipeline_exists p key = push \<lparr>command = ''EXISTS'', args = [JStr key]\<rparr> p"

definition KachyPipeline_expire ::
  "'w KachyPipeline \<Rightarrow> string \<Rightarrow> number \<Rightarrow> 'w KachyPipeline"
where
  "KachyPipeline_expire p key seconds =
     push \<lparr>command = ''EXPIRE'', args = [JStr key, JNum seconds]\<rparr> p"

definition KachyPipeline_ttl :: "'w KachyPipeline \<Rightarrow> string \<Rightarrow> 'w KachyPipeline" where
  "KachyPipeline_ttl p key = push \<lparr>command = ''TTL'', args = [JStr key]\<rparr> p"

definition KachyPipeline_redis ::
  "runtime \<Rightarrow> 'w KachyPipeline \<Rightarrow> string \<Rightarrow> jsval list \<Rightarrow> 'w KachyPipeline"
where
  "KachyPipeline_redis rt p cmd as = push \<lparr>command = toUpperCase rt cmd, args = as\<rparr> p"

text \<open>
  The loop of \<open>execute\<close>, with the results collected so far: each command goes through
  \<open>client.redis\<close>; its result, or an object holding the message of the error it raised,
  is pushed onto \<open>results\<close>. The value is what leaves the loop: the results, or an error
  that escaped it. Every error \<open>client.redis\<close> raises is an object with a message, so the
  inner handler never raises and no equation yields an error.
\<close>

fun replay ::
  "runtime \<Rightarrow> 'w KachyClient \<Rightarrow> PipelineCommand list \<Rightarrow> jsval list \<Rightarrow> 'w \<Rightarrow>
     (js_error + jsval list) \<times> 'w"
where
  "replay rt c [] results w = (Inr results, w)"
| "replay rt c (cmd # cmds) results w =
     (case KachyClient_redis rt c (command cmd) (args cmd) w of
        (Inr result, w') \<Rightarrow> replay rt c cmds (results @ [result]) w'
      | (Inl error, w') \<Rightarrow>
          replay rt c cmds (results @ [JObj [(''error'', JStr (message error))]]) w')"

text \<open>
  \<open>execute\<close> returns the results (or the error it re-raises), the pipeline with its queue
  as the call leaves it, and the world. Both exits of the outer \<open>try\<close> statement clear the
  queue: the block after the loop, and the handler before it re-raises.
\<close>

definition KachyPipeline_execute ::
  "runtime \<Rightarrow> 'w KachyPipeline \<Rightarrow> 'w \<Rightarrow> (js_error + jsval list) \<times> 'w KachyPipeline \<times> 'w"
where
  "KachyPipeline_execute rt p w =
     (if length (commands p) = 0 then (Inr [], p, w)
      else case replay rt (client p) (commands p) [] w of
             (Inr results, w') \<Rightarrow> (Inr results, p\<lparr>commands := []\<rparr>, w')
           | (Inl error, w') \<Rightarrow> (Inl error, p\<lparr>commands := []\<rparr>, w'))"

definition clear :: "'w KachyPipeline \<Rightarrow> 'w KachyPipeline" where
  "clear p = p\<lparr>commands := []\<rparr>"

definition pipeline_length :: "'w KachyPipeline \<Rightarrow> nat" where
  "pipeline_length p = length (commands p)"

section \<open>Notions used to state the properties\<close>

text \<open>
  The spec's precedence rule, in its words: the explicit option when there is one, else
  the environment variable when there is one, else the hard-coded default.
\<close>

definition precedence :: "'a option \<Rightarrow> 'a option \<Rightarrow> 'a \<Rightarrow> 'a" where
  "precedence explicit environment dflt =
     (case explicit of
        Some v \<Rightarrow> v
      | None \<Rightarrow> (case environment of Some e \<Rightarrow> e | None \<Rightarrow> dflt))"

definition parses_defaults :: "runtime \<Rightarrow> bool" where
  "parses_defaults rt =
     (parseInt rt ''30'' = Num 30 \<and> parseInt rt ''3'' = Num 3 \<and>
      parseFloat rt ''1.0'' = Num 1 \<and> parseInt rt ''10'' = Num 10)"

text \<open>
  The request configuration the request interceptor of a client built from \<open>cfg\<close> leaves
  for the arguments \<open>a\<close>, the request that reaches the transport, and how one field of
  the answer is read from the transport's outcome.
\<close>

definition intercepted ::
  "runtime \<Rightarrow> (string \<rightharpoonup> string) KachyConfig \<Rightarrow> RequestArgs \<Rightarrow> AxiosRequestConfig"
where
  "intercepted rt cfg a =
     \<lparr>method = method a, url = url a, data = data a,
      baseURL = baseUrl cfg, req_timeout = times_1000 (timeout cfg),
      req_headers = (mergedHeaders rt (headers cfg) a)
                      (''Authorization'' \<mapsto> ''Bearer '' @ accessKey cfg)\<rparr>"

definition outgoing ::
  "runtime \<Rightarrow> (string \<rightharpoonup> string) KachyConfig \<Rightarrow> RequestArgs \<Rightarrow> AxiosRequestConfig"
where
  "outgoing rt cfg a =
     (intercepted rt cfg a)\<lparr>req_headers := wireHeaders rt (intercepted rt cfg a)\<rparr>"



text \<open>
  A value whose conversion to a string cannot raise: it is no object with an own
  \<open>toString\<close> property and no array that holds one, at any depth.
\<close>

fun prints :: "jsval \<Rightarrow> bool" where
  "prints (JArr xs) = (\<forall>x \<in> set xs. prints x)"
| "prints (JObj kvs) = (map_of kvs ''toString'' = None)"
| "prints v = True"

fun settle :: "runtime \<Rightarrow> string \<Rightarrow> outcome \<Rightarrow> js_error + jsval" where
  "settle rt k (Fulfilled r) = member_of (resp_data r) k"
| "settle rt k (Rejected e) = Inl (response_error rt e)"

definition sent :: "'a \<times> AxiosRequestConfig list \<times> 'w \<Rightarrow> AxiosRequestConfig list" where
  "sent x = fst (snd x)"

definition exec_args :: "runtime \<Rightarrow> string \<Rightarrow> jsval list \<Rightarrow> RequestArgs" where
  "exec_args rt cmd as =
     \<lparr>method = POST, url = ''/valkey/exec'',
      data = Some (JObj [(''command'', JStr (toUpperCase rt cmd)), (''args'', JArr as)])\<rparr>"

fun descriptor :: "js_error + jsval \<Rightarrow> jsval" where
  "descriptor (Inr v) = v"
| "descriptor (Inl e) = JObj [(''error'', JStr (message e))]"

section \<open>An example runtime\<close>

text \<open>
  A concrete runtime for the worked examples: decimal literals with an optional sign,
  fraction and exponent are parsed exactly, and numbers print in plain decimal notation.
  The general theorems hold for every runtime.
\<close>

definition is_space :: "char \<Rightarrow> bool" where
  "is_space c = (c \<in> set [CHR '' '', CHR 0x09, CHR 0x0A, CHR 0x0B, CHR 0x0C, CHR 0x0D])"

definition is_digit :: "char \<Rightarrow> bool" where
  "is_digit c = (c \<in> set ''0123456789'')"

definition digit_value :: "char \<Rightarrow> nat" where
  "digit_value c = (case map_of (zip ''0123456789'' [0, 1, 2, 3, 4, 5, 6, 7, 8, 9]) c of
                      Some d \<Rightarrow> d | None \<Rightarrow> 0)"

definition digits_value :: "string \<Rightarrow> nat" where
  "digits_value ds = foldl (\<lambda>acc c. 10 * acc + digit_value c) 0 ds"

definition signed :: "string \<Rightarrow> rat \<Rightarrow> rat" where
  "signed s r = (if take 1 s = ''-'' then - r else r)"

definition unsign :: "string \<Rightarrow> string" where
  "unsign s = (if take 1 s = ''-'' \<or> take 1 s = ''+'' then drop 1 s else s)"

definition example_parseInt :: "string \<Rightarrow> number" where
  "example_parseInt s =
     (let t = dropWhile is_space s; ds = takeWhile is_digit (unsign t)
      in if ds = [] then NaN else Num (signed t (of_nat (digits_value ds))))"

definition scale :: "string \<Rightarrow> rat \<Rightarrow> rat" where
  "scale r m =
     (let e = drop 1 r; ds = takeWhile is_digit (unsign e)
      in if (take 1 r = ''e'' \<or> take 1 r = ''E'') \<and> ds \<noteq> [] then
           (if take 1 e = ''-'' then m / 10 ^ digits_value ds else m * 10 ^ digits_value ds)
         else m)"

definition example_parseFloat :: "string \<Rightarrow> number" where
  "example_parseFloat s =
     (let t = dropWhile is_space s; u = unsign t;
          ip = takeWhile is_digit u; r = dropWhile is_digit u;
          fp = (if take 1 r = ''.'' then takeWhile is_digit (drop 1 r) else []);
          r' = (if take 1 r = ''.'' then dropWhile is_digit (drop 1 r) else r)
      in if take 8 u = ''Infinity'' then (if take 1 t = ''-'' then NegInf else PosInf)
         else if ip = [] \<and> fp = [] then NaN
         else Num (signed t (scale r' (of_nat (digits_value ip)
                                       + of_nat (digits_value fp) / 10 ^ length fp))))"

fun fraction_digits :: "nat \<Rightarrow> rat \<Rightarrow> string" where
  "fraction_digits 0 f = []"
| "fraction_digits (Suc n) f =
     (if f = 0 then []
      else show_nat (nat \<lfloor>f * 10\<rfloor>) @ fraction_digits n (f * 10 - of_int \<lfloor>f * 10\<rfloor>))"

fun example_numberToString :: "number \<Rightarrow> string" where
  "example_numberToString NaN = ''NaN''"
| "example_numberToString PosInf = ''Infinity''"
| "example_numberToString NegInf = ''-Infinity''"
| "example_numberToString (Num r) =
     (let a = \<bar>r\<bar>; f = a - of_int \<lfloor>a\<rfloor>
      in (if r < 0 then ''-'' else []) @ show_nat (nat \<lfloor>a\<rfloor>)
         @ (if f = 0 then [] else ''.'' @ fraction_digits 20 f))"

text \<open>
  Upper-casing of UTF-8 text for the worked examples: the ASCII letters, the sharp s (which
  becomes \<open>SS\<close>) and the accented letters of the Latin-1 supplement; every other character
  is kept, so it is exact on text of these characters only.
\<close>

definition latin1_lower :: string where
  "latin1_lower =
     [CHR 0xA0, CHR 0xA1, CHR 0xA2, CHR 0xA3, CHR 0xA4, CHR 0xA5, CHR 0xA6, CHR 0xA7,
     CHR 0xA8, CHR 0xA9, CHR 0xAA, CHR 0xAB, CHR 0xAC, CHR 0xAD, CHR 0xAE, CHR 0xAF,
     CHR 0xB0, CHR 0xB1, CHR 0xB2, CHR 0xB3, CHR 0xB4, CHR 0xB5, CHR 0xB6, CHR 0xB8,
     CHR 0xB9, CHR 0xBA, CHR 0xBB, CHR 0xBC, CHR 0xBD, CHR 0xBE]"

definition latin1_upper :: string where
  "latin1_upper =
     [CHR 0x80, CHR 0x81, CHR 0x82, CHR 0x83, CHR 0x84, CHR 0x85, CHR 0x86, CHR 0x87,
     CHR 0x88, CHR 0x89, CHR 0x8A, CHR 0x8B, CHR 0x8C, CHR 0x8D, CHR 0x8E, CHR 0x8F,
     CHR 0x90, CHR 0x91, CHR 0x92, CHR 0x93, CHR 0x94, CHR 0x95, CHR 0x96, CHR 0x98,
     CHR 0x99, CHR 0x9A, CHR 0x9B, CHR 0x9C, CHR 0x9D, CHR 0x9E]"

fun example_unicodeUpperCase :: "string \<Rightarrow> string" where
  "example_unicodeUpperCase [] = []"
| "example_unicodeUpperCase [c] = [toUpperChar c]"
| "example_unicodeUpperCase (c # d # cs) =
     (if c = CHR 0xC3 \<and> d = CHR 0x9F then ''SS'' @ example_unicodeUpperCase cs
      else if c = CHR 0xC3 \<and> d = CHR 0xBF then
        CHR 0xC5 # CHR 0xB8 # example_unicodeUpperCase cs
      else if c = CHR 0xC3 then
        c # (case map_of (zip latin1_lower latin1_upper) d of Some u \<Rightarrow> u | None \<Rightarrow> d)
          # example_unicodeUpperCase cs
      else toUpperChar c # example_unicodeUpperCase (d # cs))"

text \<open>
  The headers of axios for the worked examples: its default \<open>Accept\<close> under the headers
  of the instance; on the wire its user agent and, for a body that is an object or an
  array, the JSON content type, each only where the header is not set.
\<close>

definition example_mergedHeaders ::
  "(string \<rightharpoonup> string) \<Rightarrow> RequestArgs \<Rightarrow> (string \<rightharpoonup> string)"
where
  "example_mergedHeaders hs a = [''Accept'' \<mapsto> ''application/json, text/plain, */*''] ++ hs"

definition example_wireHeaders :: "AxiosRequestConfig \<Rightarrow> (string \<rightharpoonup> string)" where
  "example_wireHeaders req =
     ([''User-Agent'' \<mapsto> ''axios/1.6.0''] ++
      (case data req of
         Some (JObj kvs) \<Rightarrow> [''Content-Type'' \<mapsto> ''application/json'']
       | Some (JArr xs) \<Rightarrow> [''Content-Type'' \<mapsto> ''application/json'']
       | _ \<Rightarrow> Map.empty)) ++ req_headers req"

definition example_runtime :: "(string \<rightharpoonup> string) \<Rightarrow> runtime" where
  "example_runtime e =
     \<lparr>env = e, parseInt = example_parseInt, parseFloat = example_parseFloat,
      numberToString = example_numberToString,
      unicodeUpperCase = example_unicodeUpperCase,
      mergedHeaders = example_mergedHeaders, wireHeaders = example_wireHeaders\<rparr>"

text \<open>
  The errors axios rejects with: one that carries a response (a status outside 2xx), and
  one that carries none (the request never got an answer).
\<close>

definition http_error :: "nat \<Rightarrow> string \<Rightarrow> jsval \<Rightarrow> AxiosError" where
  "http_error st txt body =
     \<lparr>response = Some \<lparr>status = st, statusText = txt, resp_data = body\<rparr>,
      code = Some (if st < 500 then ''ERR_BAD_REQUEST'' else ''ERR_BAD_RESPONSE''),
      err_message = ''Request failed with status code '' @ show_nat st\<rparr>"

definition transport_error :: "string \<Rightarrow> string \<Rightarrow> AxiosError" where
  "transport_error c msg = \<lparr>response = None, code = Some c, err_message = msg\<rparr>"

text \<open>A transport that rejects every request with the same error.\<close>

definition rejecting :: "AxiosError \<Rightarrow> 'w transport" where
  "rejecting e req w = (Rejected e, w)"

text \<open>
  An example transport: a server that answers every request with status 200 and a body
  holding \<open>success\<close> and \<open>result\<close>, except the raw command \<open>BOOM\<close>, which it refuses with
  status 500 and a message. Its state counts the requests it has served.
\<close>

definition example_server :: "nat transport" where
  "example_server req n =
     (if optional_member (case data req of Some d \<Rightarrow> d | None \<Rightarrow> JUndefined) ''command''
           = JStr ''BOOM''
      then (Rejected (http_error 500 ''Internal Server Error''
                        (JObj [(''message'', JStr ''unknown command'')])), Suc n)
      else (Fulfilled \<lparr>status = 200, statusText = ''OK'',
                       resp_data = JObj [(''success'', JBool True), (''result'', JStr ''OK'')]\<rparr>,
            Suc n))"

definition example_config :: "(string \<rightharpoonup> string) KachyConfig" where
  "example_config =
     \<lparr>accessKey = ''test-secret'', baseUrl = ''https://test.api.kachy.com'', timeout = Num 10,
      maxRetries = Num 3, retryDelay = Num 1, poolSize = Num 10,
      userAgent = ''kachy-valkey-node/0.1.0'',
      headers = default_headers ''kachy-valkey-node/0.1.0''\<rparr>"

definition example_client :: "(AxiosRequestConfig list \<times> nat) KachyClient" where
  "example_client =
     KachyClient_new (example_runtime Map.empty) (recording example_server) example_config"

text \<open>The inputs of the worked example of the precedence rule.\<close>

definition precedence_example_env :: "string \<rightharpoonup> string" where
  "precedence_example_env =
     [''KACHY_BASE_URL'' \<mapsto> ''https://env.example'', ''KACHY_TIMEOUT'' \<mapsto> ''60'',
      ''KACHY_RETRY_DELAY'' \<mapsto> ''0.5'']"

definition precedence_example_options :: KachyConfigOptions where
  "precedence_example_options =
     no_options\<lparr>opt_baseUrl := Some ''https://explicit.example'', opt_poolSize := Some (Num 4)\<rparr>"




text \<open>What a request asks for: its method, its URL and its body.\<close>

definition asks :: "AxiosRequestConfig \<Rightarrow> http_method \<times> string \<times> jsval option" where
  "asks req = (method req, url req, data req)"

text \<open>The requests recorded while a pipeline executed.\<close>

definition sent_by_execute ::
  "'a \<times> 'p \<times> AxiosRequestConfig list \<times> 'w \<Rightarrow> AxiosRequestConfig list"
where
  "sent_by_execute x = fst (snd (snd x))"

definition lower_case_letter :: "char \<Rightarrow> bool" where
  "lower_case_letter c = (c \<in> set ''abcdefghijklmnopqrstuvwxyz'')"

text \<open>The answer of the example server to every request it accepts.\<close>

definition ok_response :: AxiosResponse where
  "ok_response = \<lparr>status = 200, statusText = ''OK'',
                   resp_data = JObj [(''success'', JBool True), (''result'', JStr ''OK'')]\<rparr>"

text \<open>
  A pipeline with three queued commands, the second of which the example server refuses.
\<close>

definition example_pipeline :: "(AxiosRequestConfig list \<times> nat) KachyPipeline" where
  "example_pipeline =
     KachyPipeline_get
       (KachyPipeline_redis (example_runtime Map.empty)
          (KachyPipeline_set (pipeline example_client) ''batch:1'' ''value1'' None)
          ''boom'' [])
       ''batch:1''"

text \<open>
  A configuration object whose headers are the object at reference 0 of a store.
\<close>

definition example_store :: store where
  "example_store = [default_headers ''kachy-valkey-node/0.1.0'']"

definition example_ref_config :: "ref KachyConfig" where
  "example_ref_config =
     \<lparr>accessKey = ''test-secret'', baseUrl = ''https://test.api.kachy.com'', timeout = Num 10,
      maxRetries = Num 3, retryDelay = Num 1, poolSize = Num 10,
      userAgent = ''kachy-valkey-node/0.1.0'', headers = 0\<rparr>"

section \<open>Configuration: properties\<close>

lemmas example_runtime_defs =
  example_runtime_def example_parseInt_def example_parseFloat_def is_space_def is_digit_def
  digit_value_def digits_value_def signed_def unsign_def scale_def

lemma example_parses_defaults: "parses_defaults (example_runtime e)"
  by (simp add: parses_defaults_def example_runtime_defs)

lemma str_or_precedence: "str_or a (str_or b d) = precedence (if_truthy_str a) (if_truthy_str b) d"
  by (cases a; cases b) (auto simp: precedence_def)

lemma num_or_precedence:
  "num_or a (f (str_or b d)) = precedence (if_truthy_num a) (map_option f (if_truthy_str b)) (f d)"
  by (cases a; cases b) (auto simp: precedence_def)

lemma KachyConfig_new_Inr:
  "KachyConfig_new rt key opts = Inr cfg \<Longrightarrow>
     if_truthy_str key = Some (accessKey cfg) \<and>
     baseUrl cfg = str_or (opt_baseUrl opts)
                     (str_or (env rt ''KACHY_BASE_URL'') ''https://api.klache.net'') \<and>
     timeout cfg = num_or (opt_timeout opts)
                     (parseInt rt (str_or (env rt ''KACHY_TIMEOUT'') ''30'')) \<and>
     maxRetries cfg = num_or (opt_maxRetries opts)
                     (parseInt rt (str_or (env rt ''KACHY_MAX_RETRIES'') ''3'')) \<and>
     retryDelay cfg = num_or (opt_retryDelay opts)
                     (parseFloat rt (str_or (env rt ''KACHY_RETRY_DELAY'') ''1.0'')) \<and>
     poolSize cfg = num_or (opt_poolSize opts)
                     (parseInt rt (str_or (env rt ''KACHY_POOL_SIZE'') ''10'')) \<and>
     userAgent cfg = str_or (opt_userAgent opts) ''kachy-valkey-node/0.1.0'' \<and>
     headers cfg = (case opt_headers opts of
                      Some h \<Rightarrow> h
                    | None \<Rightarrow> default_headers (userAgent cfg))"
  by (auto simp: KachyConfig_new_def Let_def split: option.splits)

lemma KachyConfig_new_succeeds:
  "k \<noteq> [] \<Longrightarrow> \<exists>cfg. KachyConfig_new rt (Some k) opts = Inr cfg \<and> accessKey cfg = k"
  by (simp add: KachyConfig_new_def Let_def)

text \<open>
  C3 (as amended). Every field of a constructed configuration is resolved by the rule
  explicit option, then environment variable, then hard-coded default, where a source
  counts only when its value is truthy: an option that is a non-empty string or a number
  other than 0 and NaN, an environment variable that is set and not empty (the numeric
  ones read through \<open>parseInt\<close> and \<open>parseFloat\<close>). The headers have an option and a
  default but no environment variable; any supplied headers object wins. The defaults are
  30, 3, 1.0 and 10 on a runtime that parses these literals as JavaScript does.
\<close>

theorem C3_precedence_of_truthy_sources:
  assumes "KachyConfig_new rt key opts = Inr cfg" and "parses_defaults rt"
  shows "baseUrl cfg = precedence (if_truthy_str (opt_baseUrl opts))
                         (if_truthy_str (env rt ''KACHY_BASE_URL'')) ''https://api.klache.net''
       \<and> timeout cfg = precedence (if_truthy_num (opt_timeout opts))
                         (map_option (parseInt rt) (if_truthy_str (env rt ''KACHY_TIMEOUT'')))
                         (Num 30)
       \<and> maxRetries cfg = precedence (if_truthy_num (opt_maxRetries opts))
                         (map_option (parseInt rt) (if_truthy_str (env rt ''KACHY_MAX_RETRIES'')))
                         (Num 3)
       \<and> retryDelay cfg = precedence (if_truthy_num (opt_retryDelay opts))
                         (map_option (parseFloat rt) (if_truthy_str (env rt ''KACHY_RETRY_DELAY'')))
                         (Num 1)
       \<and> poolSize cfg = precedence (if_truthy_num (opt_poolSize opts))
                         (map_option (parseInt rt) (if_truthy_str (env rt ''KACHY_POOL_SIZE'')))
                         (Num 10)
       \<and> headers cfg = precedence (opt_headers opts) None (default_headers (userAgent cfg))"
proof -
  note c = KachyConfig_new_Inr [OF assms(1)]
  from assms(2) have p: "parseInt rt ''30'' = Num 30" "parseInt rt ''3'' = Num 3"
    "parseFloat rt ''1.0'' = Num 1" "parseInt rt ''10'' = Num 10"
    by (simp_all add: parses_defaults_def)
  have "baseUrl cfg = precedence (if_truthy_str (opt_baseUrl opts))
                         (if_truthy_str (env rt ''KACHY_BASE_URL'')) ''https://api.klache.net''"
    using c by (simp add: str_or_precedence)
  moreover have "timeout cfg = precedence (if_truthy_num (opt_timeout opts))
                         (map_option (parseInt rt) (if_truthy_str (env rt ''KACHY_TIMEOUT'')))
                         (Num 30)"
    using c p by (simp add: num_or_precedence)
  moreover have "maxRetries cfg = precedence (if_truthy_num (opt_maxRetries opts))
                         (map_option (parseInt rt) (if_truthy_str (env rt ''KACHY_MAX_RETRIES'')))
                         (Num 3)"
    using c p by (simp add: num_or_precedence)
  moreover have "retryDelay cfg = precedence (if_truthy_num (opt_retryDelay opts))
                         (map_option (parseFloat rt) (if_truthy_str (env rt ''KACHY_RETRY_DELAY'')))
                         (Num 1)"
    using c p by (simp add: num_or_precedence)
  moreover have "poolSize cfg = precedence (if_truthy_num (opt_poolSize opts))
                         (map_option (parseInt rt) (if_truthy_str (env rt ''KACHY_POOL_SIZE'')))
                         (Num 10)"
    using c p by (simp add: num_or_precedence)
  moreover have "headers cfg = precedence (opt_headers opts) None (default_headers (userAgent cfg))"
    using c by (simp add: precedence_def split: option.splits)
  ultimately show ?thesis by blast
qed

text \<open>
  C3, worked example: the base URL and the pool size come from the options, the timeout
  and the retry delay from the environment, the retry count and the headers from the
  defaults.
\<close>

theorem C3_precedence_witness:
  "\<exists>cfg. KachyConfig_new (example_runtime precedence_example_env) (Some ''test-secret'')
            precedence_example_options = Inr cfg
       \<and> parses_defaults (example_runtime precedence_example_env)
       \<and> baseUrl cfg = ''https://explicit.example''
       \<and> timeout cfg = Num 60
       \<and> maxRetries cfg = Num 3
       \<and> retryDelay cfg = Num (1 / 2)
       \<and> poolSize cfg = Num 4
       \<and> headers cfg = default_headers ''kachy-valkey-node/0.1.0''"
proof -
  let ?rt = "example_runtime precedence_example_env"
  obtain cfg where c: "KachyConfig_new ?rt (Some ''test-secret'') precedence_example_options = Inr cfg"
    using KachyConfig_new_succeeds [of "''test-secret''"] by auto
  have u: "userAgent cfg = ''kachy-valkey-node/0.1.0''"
    using KachyConfig_new_Inr [OF c]
    by (simp add: precedence_example_options_def no_options_def)
  have p: "parses_defaults ?rt" by (rule example_parses_defaults)
  show ?thesis
    using C3_precedence_of_truthy_sources [OF c p] c p u
    by (simp add: precedence_def precedence_example_options_def no_options_def
          precedence_example_env_def example_runtime_defs)
qed

text \<open>
  C3 as stated fails for falsy options: with \<open>timeout: 0\<close> supplied and
  \<open>KACHY_TIMEOUT=60\<close> set, the configuration's timeout is 60, where the stated rule gives
  the supplied 0; with \<open>baseUrl: ''\<close> supplied and \<open>KACHY_BASE_URL\<close> set, the base URL is
  the variable's.
\<close>

theorem C3_falsy_option_counterexample:
  "map_sum message timeout
     (KachyConfig_new (example_runtime [''KACHY_TIMEOUT'' \<mapsto> ''60'']) (Some ''test-secret'')
        (no_options\<lparr>opt_timeout := Some (Num 0)\<rparr>)) = Inr (Num 60)
   \<and> precedence (Some (Num 0))
        (map_option example_parseInt ([''KACHY_TIMEOUT'' \<mapsto> ''60''] ''KACHY_TIMEOUT''))
        (Num 30) = Num 0
   \<and> map_sum message baseUrl
     (KachyConfig_new (example_runtime [''KACHY_BASE_URL'' \<mapsto> ''https://env.example''])
        (Some ''test-secret'') (no_options\<lparr>opt_baseUrl := Some ''''\<rparr>))
       = Inr ''https://env.example''"
  by (simp add: KachyConfig_new_def Let_def no_options_def precedence_def example_runtime_defs)

text \<open>
  C6 (as amended). Constructing a configuration with an absent or empty access key fails
  with the error \<open>KACHY_ACCESS_KEY is required\<close>, and with any non-empty key it succeeds
  and keeps the key. \<open>fromEnv\<close> fails when the variable \<open>KACHY_ACCESS_KEY\<close> is absent or
  set to the empty string, with an error of the same class whose message is
  \<open>KACHY_ACCESS_KEY environment variable is required\<close>; with a non-empty variable it is
  the constructor applied to that key and no options, and succeeds.
\<close>

theorem C6_missing_credential:
  "KachyConfig_new rt None opts = Inl (new_Error ''KACHY_ACCESS_KEY is required'')
   \<and> KachyConfig_new rt (Some []) opts = Inl (new_Error ''KACHY_ACCESS_KEY is required'')
   \<and> (k \<noteq> [] \<longrightarrow> (\<exists>cfg. KachyConfig_new rt (Some k) opts = Inr cfg \<and> accessKey cfg = k))
   \<and> (env rt ''KACHY_ACCESS_KEY'' = None \<or> env rt ''KACHY_ACCESS_KEY'' = Some [] \<longrightarrow>
        fromEnv rt = Inl (new_Error ''KACHY_ACCESS_KEY environment variable is required''))
   \<and> (env rt ''KACHY_ACCESS_KEY'' = Some k \<and> k \<noteq> [] \<longrightarrow>
        fromEnv rt = KachyConfig_new rt (Some k) no_options \<and>
        (\<exists>cfg. fromEnv rt = Inr cfg \<and> accessKey cfg = k))"
proof -
  have a: "KachyConfig_new rt None opts = Inl (new_Error ''KACHY_ACCESS_KEY is required'')"
    by (simp add: KachyConfig_new_def)
  have b: "KachyConfig_new rt (Some []) opts = Inl (new_Error ''KACHY_ACCESS_KEY is required'')"
    by (simp add: KachyConfig_new_def)
  have c: "k \<noteq> [] \<longrightarrow> (\<exists>cfg. KachyConfig_new rt (Some k) opts = Inr cfg \<and> accessKey cfg = k)"
    using KachyConfig_new_succeeds [of k rt opts] by blast
  have d: "env rt ''KACHY_ACCESS_KEY'' = None \<or> env rt ''KACHY_ACCESS_KEY'' = Some [] \<longrightarrow>
        fromEnv rt = Inl (new_Error ''KACHY_ACCESS_KEY environment variable is required'')"
    by (auto simp: fromEnv_def)
  have e: "env rt ''KACHY_ACCESS_KEY'' = Some k \<and> k \<noteq> [] \<longrightarrow>
        fromEnv rt = KachyConfig_new rt (Some k) no_options \<and>
        (\<exists>cfg. fromEnv rt = Inr cfg \<and> accessKey cfg = k)"
    using KachyConfig_new_succeeds [of k rt no_options] by (auto simp: fromEnv_def)
  show ?thesis by (intro conjI a b c d e)
qed

text \<open>
  C6, worked example: no key and the key \<open>test-secret\<close>; an empty environment and one
  that holds \<open>env-secret\<close>.
\<close>

theorem C6_missing_credential_witness:
  "KachyConfig_new (example_runtime Map.empty) None no_options
     = Inl (new_Error ''KACHY_ACCESS_KEY is required'')
   \<and> (\<exists>cfg. KachyConfig_new (example_runtime Map.empty) (Some ''test-secret'') no_options = Inr cfg
          \<and> accessKey cfg = ''test-secret'')
   \<and> fromEnv (example_runtime Map.empty)
     = Inl (new_Error ''KACHY_ACCESS_KEY environment variable is required'')
   \<and> (\<exists>cfg. fromEnv (example_runtime [''KACHY_ACCESS_KEY'' \<mapsto> ''env-secret'']) = Inr cfg
          \<and> accessKey cfg = ''env-secret'')"
  using C6_missing_credential [of "example_runtime Map.empty" no_options "''test-secret''"]
    C6_missing_credential
      [of "example_runtime [''KACHY_ACCESS_KEY'' \<mapsto> ''env-secret'']" no_options "''env-secret''"]
  by (simp add: example_runtime_def)

text \<open>
  C6 as stated fails on ``exactly when the variable is absent'': with the variable
  present and empty, \<open>fromEnv\<close> fails as well.
\<close>

theorem C6_empty_variable_counterexample:
  "env (example_runtime [''KACHY_ACCESS_KEY'' \<mapsto> '''']) ''KACHY_ACCESS_KEY'' = Some ''''
   \<and> fromEnv (example_runtime [''KACHY_ACCESS_KEY'' \<mapsto> ''''])
       = Inl (new_Error ''KACHY_ACCESS_KEY environment variable is required'')"
  by (simp add: fromEnv_def example_runtime_def)

section \<open>Client: properties\<close>

lemma request_field_eq:
  "request_field (KachyClient_new rt t cfg) a k w =
     (settle rt k (fst (t (outgoing rt cfg a) w)), snd (t (outgoing rt cfg a) w))"
proof -
  obtain out w' where t: "t (outgoing rt cfg a) w = (out, w')"
    by (cases "t (outgoing rt cfg a) w")
  show ?thesis
    using t
    by (cases out)
       (simp_all add: request_field_def makeRequest_def KachyClient_new_def axios_request_def
          createHttpClient_def Let_def outgoing_def intercepted_def)
qed

lemma request_field_recording:
  "request_field (KachyClient_new rt (recording t) cfg) a k (tr, w) =
     (settle rt k (fst (t (outgoing rt cfg a) w)),
      (tr @ [outgoing rt cfg a], snd (t (outgoing rt cfg a) w)))"
  by (simp add: request_field_eq recording_def split: prod.splits)

lemma redis_recording:
  "KachyClient_redis rt' (KachyClient_new rt (recording t) cfg) cmd as (tr, w) =
     (settle rt ''result'' (fst (t (outgoing rt cfg (exec_args rt' cmd as)) w)),
      (tr @ [outgoing rt cfg (exec_args rt' cmd as)],
       snd (t (outgoing rt cfg (exec_args rt' cmd as)) w)))"
  by (simp add: KachyClient_redis_def exec_args_def request_field_recording)

lemmas client_ops_defs =
  KachyClient_set_def KachyClient_get_def KachyClient_delete_def KachyClient_exists_def
  KachyClient_expire_def KachyClient_ttl_def KachyClient_redis_def

lemmas new_error_defs =
  new_Error_def new_TypeError_def new_KachyError_def new_KachyConnectionError_def
  new_KachyAuthenticationError_def new_KachyResponseError_def

lemma first_error_Inr:
  "(\<forall>x \<in> set xs. \<exists>y. f x = Inr y) \<Longrightarrow> \<exists>ys. first_error (map f xs) = Inr ys"
proof (induction xs)
  case Nil
  show ?case by simp
next
  case (Cons x xs)
  then obtain y ys where "f x = Inr y" "first_error (map f xs) = Inr ys"
    by auto
  then show ?case by simp
qed

lemma js_toString_prints: "prints v \<Longrightarrow> \<exists>s. js_toString rt v = Inr s"
proof (induction v)
  case (JArr xs)
  let ?f = "\<lambda>x. if x = JNull \<or> x = JUndefined then Inr [] else js_toString rt x"
  have "\<forall>x \<in> set xs. \<exists>y. ?f x = Inr y"
  proof
    fix x
    assume x: "x \<in> set xs"
    with JArr.prems have "prints x" by simp
    with JArr.IH x obtain s where "js_toString rt x = Inr s" by blast
    then show "\<exists>y. ?f x = Inr y" by simp
  qed
  then obtain ss where "first_error (map ?f xs) = Inr ss"
    using first_error_Inr [of xs ?f] by blast
  then show ?case by simp
next
  case (JObj kvs)
  then show ?case by simp
qed simp_all

lemma response_error_401:
  "response e = Some r \<Longrightarrow> status r = 401 \<Longrightarrow>
     response_error rt e = new_KachyAuthenticationError ''Authentication failed''"
  by (simp add: response_error_def)

lemma response_error_falsy:
  "response e = Some r \<Longrightarrow> 400 \<le> status r \<Longrightarrow> status r \<noteq> 401 \<Longrightarrow>
   \<not> truthy (optional_member (resp_data r) ''message'') \<Longrightarrow>
     response_error rt e =
       new_KachyResponseError (''API error '' @ show_nat (status r) @ '': '' @ statusText r)"
  by (simp add: response_error_def Let_def)

lemma response_error_truthy:
  "response e = Some r \<Longrightarrow> 400 \<le> status r \<Longrightarrow> status r \<noteq> 401 \<Longrightarrow>
   truthy (optional_member (resp_data r) ''message'') \<Longrightarrow>
   js_toString rt (optional_member (resp_data r) ''message'') = Inr s \<Longrightarrow>
     response_error rt e =
       new_KachyResponseError (''API error '' @ show_nat (status r) @ '': '' @ s)"
  by (simp add: response_error_def Let_def)

lemma response_error_transport:
  "(case response e of None \<Rightarrow> True | Some r \<Rightarrow> status r < 400) \<Longrightarrow>
     response_error rt e = connection_error e"
proof (cases "response e")
  case None
  then show ?thesis by (simp add: response_error_def)
next
  case (Some r)
  assume "case response e of None \<Rightarrow> True | Some r \<Rightarrow> status r < 400"
  with Some have "status r < 400" by simp
  then have "status r \<noteq> 401" "\<not> 400 \<le> status r" by arith+
  with Some show ?thesis by (simp add: response_error_def)
qed

lemma instanceof_Kachy:
  "instanceof (new_KachyError m) KachyError"
  "instanceof (new_KachyConnectionError m) KachyError"
  "instanceof (new_KachyAuthenticationError m) KachyError"
  "instanceof (new_KachyResponseError m) KachyError"
  by (simp_all add: instanceof_def class_chain_def new_KachyError_def
        new_KachyConnectionError_def new_KachyAuthenticationError_def new_KachyResponseError_def)

lemma connection_error_cls: "cls (connection_error e) = KachyConnectionError"
  by (simp add: connection_error_def new_error_defs)

lemma response_error_cls:
  assumes "\<forall>r. response e = Some r \<longrightarrow> prints (optional_member (resp_data r) ''message'')"
  shows "cls (response_error rt e) \<in>
     {KachyAuthenticationError, KachyResponseError, KachyConnectionError}"
proof (cases "response e")
  case None
  then show ?thesis by (simp add: response_error_def connection_error_cls)
next
  case (Some r)
  with assms obtain s where s: "js_toString rt (optional_member (resp_data r) ''message'') = Inr s"
    using js_toString_prints by blast
  show ?thesis
  proof (cases "status r = 401")
    case True
    with Some show ?thesis by (simp add: response_error_401 new_error_defs)
  next
    case n: False
    show ?thesis
    proof (cases "400 \<le> status r")
      case True
      show ?thesis
      proof (cases "truthy (optional_member (resp_data r) ''message'')")
        case True
        from response_error_truthy [OF Some \<open>400 \<le> status r\<close> n True s]
        show ?thesis by (simp add: new_error_defs)
      next
        case False
        from response_error_falsy [OF Some \<open>400 \<le> status r\<close> n False]
        show ?thesis by (simp add: new_error_defs)
      qed
    next
      case False
      then have "status r < 400" by arith
      with Some have "response_error rt e = connection_error e"
        by (simp add: response_error_transport)
      then show ?thesis by (simp add: connection_error_cls)
    qed
  qed
qed

text \<open>
  Outside the proviso of the class property: a body whose \<open>message\<close> is an object with an
  own \<open>toString\<close> property cannot be converted, and the handler raises the TypeError of
  the conversion in place of a response error.
\<close>

lemma response_error_unprintable:
  "message (response_error (example_runtime Map.empty)
              (http_error 500 ''Internal Server Error''
                 (JObj [(''message'', JObj [(''toString'', JNum (Num 1))])])))
     = ''Cannot convert object to primitive value''
   \<and> cls (response_error (example_runtime Map.empty)
              (http_error 500 ''Internal Server Error''
                 (JObj [(''message'', JObj [(''toString'', JNum (Num 1))])]))) = TypeError"
  by (simp add: response_error_def http_error_def new_error_defs)

text \<open>
  C1 (as amended). The error handler maps a rejected request to one error: a response
  with status 401 to an authentication error; a response with any other status from 400
  on to a response error whose message is \<open>API error\<close>, the status code, and the body's
  \<open>message\<close> field converted to a string when that field is truthy (for instance a
  non-empty string, which is taken as it is), the status text otherwise; a rejection
  with no such response to a connection error, with the message \<open>Request timeout\<close> for
  the code ECONNABORTED, \<open>Connection failed\<close> for ENOTFOUND and ECONNREFUSED, and
  \<open>Request failed:\<close> followed by the original message for anything else. Whenever the
  \<open>message\<close> field of the body can be converted to a string, the error is of one of
  these three classes. Each of the seven operations raises exactly the handler's error
  when its request is rejected. The four error classes are instances of \<open>KachyError\<close>,
  carry their message, and differ in their name.
\<close>

theorem C1_error_normalization:
  "(response e = Some r \<and> status r = 401 \<longrightarrow>
      response_error rt e = new_KachyAuthenticationError ''Authentication failed'')
   \<and> (response e = Some r \<and> 400 \<le> status r \<and> status r \<noteq> 401 \<longrightarrow>
        (\<not> truthy (optional_member (resp_data r) ''message'') \<longrightarrow>
           response_error rt e =
             new_KachyResponseError
               (''API error '' @ show_nat (status r) @ '': '' @ statusText r)) \<and>
        (truthy (optional_member (resp_data r) ''message'') \<and>
         js_toString rt (optional_member (resp_data r) ''message'') = Inr s \<longrightarrow>
           response_error rt e =
             new_KachyResponseError (''API error '' @ show_nat (status r) @ '': '' @ s)) \<and>
        (optional_member (resp_data r) ''message'' = JStr s \<and> s \<noteq> [] \<longrightarrow>
           response_error rt e =
             new_KachyResponseError (''API error '' @ show_nat (status r) @ '': '' @ s)))
   \<and> ((case response e of None \<Rightarrow> True | Some r \<Rightarrow> status r < 400) \<longrightarrow>
      (code e = Some ''ECONNABORTED'' \<longrightarrow>
         response_error rt e = new_KachyConnectionError ''Request timeout'') \<and>
      (code e = Some ''ENOTFOUND'' \<or> code e = Some ''ECONNREFUSED'' \<longrightarrow>
         response_error rt e = new_KachyConnectionError ''Connection failed'') \<and>
      (code e \<noteq> Some ''ECONNABORTED'' \<and> code e \<noteq> Some ''ENOTFOUND'' \<and>
       code e \<noteq> Some ''ECONNREFUSED'' \<longrightarrow>
         response_error rt e =
           new_KachyConnectionError (''Request failed: '' @ err_message e)))
   \<and> ((\<forall>r. response e = Some r \<longrightarrow> prints (optional_member (resp_data r) ''message'')) \<longrightarrow>
      cls (response_error rt e) \<in>
        {KachyAuthenticationError, KachyResponseError, KachyConnectionError})
   \<and> ((\<forall>req. fst (t req w) = Rejected e) \<longrightarrow>
      fst (KachyClient_set (KachyClient_new rt t cfg) key val ex w) = Inl (response_error rt e) \<and>
      fst (KachyClient_get (KachyClient_new rt t cfg) key w) = Inl (response_error rt e) \<and>
      fst (KachyClient_delete (KachyClient_new rt t cfg) key w) = Inl (response_error rt e) \<and>
      fst (KachyClient_exists (KachyClient_new rt t cfg) key w) = Inl (response_error rt e) \<and>
      fst (KachyClient_expire (KachyClient_new rt t cfg) key secs w) = Inl (response_error rt e) \<and>
      fst (KachyClient_ttl (KachyClient_new rt t cfg) key w) = Inl (response_error rt e) \<and>
      fst (KachyClient_redis rt (KachyClient_new rt t cfg) cmd as w) = Inl (response_error rt e))
   \<and> instanceof (new_KachyError m) KachyError
   \<and> instanceof (new_KachyConnectionError m) KachyError
   \<and> instanceof (new_KachyAuthenticationError m) KachyError
   \<and> instanceof (new_KachyResponseError m) KachyError
   \<and> map name [new_KachyError m, new_KachyConnectionError m, new_KachyAuthenticationError m,
                new_KachyResponseError m]
       = [''KachyError'', ''KachyConnectionError'', ''KachyAuthenticationError'',
          ''KachyResponseError'']
   \<and> map message [new_KachyError m, new_KachyConnectionError m,
                   new_KachyAuthenticationError m, new_KachyResponseError m] = [m, m, m, m]"
proof -
  have a: "response e = Some r \<and> status r = 401 \<longrightarrow>
      response_error rt e = new_KachyAuthenticationError ''Authentication failed''"
    by (simp add: response_error_401)
  have b: "response e = Some r \<and> 400 \<le> status r \<and> status r \<noteq> 401 \<longrightarrow>
        (\<not> truthy (optional_member (resp_data r) ''message'') \<longrightarrow>
           response_error rt e =
             new_KachyResponseError
               (''API error '' @ show_nat (status r) @ '': '' @ statusText r)) \<and>
        (truthy (optional_member (resp_data r) ''message'') \<and>
         js_toString rt (optional_member (resp_data r) ''message'') = Inr s \<longrightarrow>
           response_error rt e =
             new_KachyResponseError (''API error '' @ show_nat (status r) @ '': '' @ s)) \<and>
        (optional_member (resp_data r) ''message'' = JStr s \<and> s \<noteq> [] \<longrightarrow>
           response_error rt e =
             new_KachyResponseError (''API error '' @ show_nat (status r) @ '': '' @ s))"
  proof (intro impI, elim conjE)
    assume h: "response e = Some r" "400 \<le> status r" "status r \<noteq> 401"
    have 1: "\<not> truthy (optional_member (resp_data r) ''message'') \<longrightarrow>
           response_error rt e =
             new_KachyResponseError
               (''API error '' @ show_nat (status r) @ '': '' @ statusText r)"
      using response_error_falsy [OF h] by blast
    have 2: "truthy (optional_member (resp_data r) ''message'') \<and>
         js_toString rt (optional_member (resp_data r) ''message'') = Inr s \<longrightarrow>
           response_error rt e =
             new_KachyResponseError (''API error '' @ show_nat (status r) @ '': '' @ s)"
      using response_error_truthy [OF h] by blast
    have 3: "optional_member (resp_data r) ''message'' = JStr s \<and> s \<noteq> [] \<longrightarrow>
           response_error rt e =
             new_KachyResponseError (''API error '' @ show_nat (status r) @ '': '' @ s)"
    proof (intro impI, elim conjE)
      assume m: "optional_member (resp_data r) ''message'' = JStr s" and n: "s \<noteq> []"
      have "truthy (optional_member (resp_data r) ''message'')"
        and "js_toString rt (optional_member (resp_data r) ''message'') = Inr s"
        using m n by simp_all
      then show "response_error rt e =
             new_KachyResponseError (''API error '' @ show_nat (status r) @ '': '' @ s)"
        by (rule response_error_truthy [OF h])
    qed
    show "(\<not> truthy (optional_member (resp_data r) ''message'') \<longrightarrow>
           response_error rt e =
             new_KachyResponseError
               (''API error '' @ show_nat (status r) @ '': '' @ statusText r)) \<and>
        (truthy (optional_member (resp_data r) ''message'') \<and>
         js_toString rt (optional_member (resp_data r) ''message'') = Inr s \<longrightarrow>
           response_error rt e =
             new_KachyResponseError (''API error '' @ show_nat (status r) @ '': '' @ s)) \<and>
        (optional_member (resp_data r) ''message'' = JStr s \<and> s \<noteq> [] \<longrightarrow>
           response_error rt e =
             new_KachyResponseError (''API error '' @ show_nat (status r) @ '': '' @ s))"
      by (intro conjI 1 2 3)
  qed
  have c: "(case response e of None \<Rightarrow> True | Some r \<Rightarrow> status r < 400) \<longrightarrow>
      (code e = Some ''ECONNABORTED'' \<longrightarrow>
         response_error rt e = new_KachyConnectionError ''Request timeout'') \<and>
      (code e = Some ''ENOTFOUND'' \<or> code e = Some ''ECONNREFUSED'' \<longrightarrow>
         response_error rt e = new_KachyConnectionError ''Connection failed'') \<and>
      (code e \<noteq> Some ''ECONNABORTED'' \<and> code e \<noteq> Some ''ENOTFOUND'' \<and>
       code e \<noteq> Some ''ECONNREFUSED'' \<longrightarrow>
         response_error rt e =
           new_KachyConnectionError (''Request failed: '' @ err_message e))"
    by (auto simp: response_error_transport connection_error_def)
  have k: "(\<forall>r. response e = Some r \<longrightarrow> prints (optional_member (resp_data r) ''message'')) \<longrightarrow>
      cls (response_error rt e) \<in>
        {KachyAuthenticationError, KachyResponseError, KachyConnectionError}"
    using response_error_cls [of e rt] by blast
  have d: "(\<forall>req. fst (t req w) = Rejected e) \<longrightarrow>
      fst (KachyClient_set (KachyClient_new rt t cfg) key val ex w) = Inl (response_error rt e) \<and>
      fst (KachyClient_get (KachyClient_new rt t cfg) key w) = Inl (response_error rt e) \<and>
      fst (KachyClient_delete (KachyClient_new rt t cfg) key w) = Inl (response_error rt e) \<and>
      fst (KachyClient_exists (KachyClient_new rt t cfg) key w) = Inl (response_error rt e) \<and>
      fst (KachyClient_expire (KachyClient_new rt t cfg) key secs w) = Inl (response_error rt e) \<and>
      fst (KachyClient_ttl (KachyClient_new rt t cfg) key w) = Inl (response_error rt e) \<and>
      fst (KachyClient_redis rt (KachyClient_new rt t cfg) cmd as w) = Inl (response_error rt e)"
    by (simp add: client_ops_defs request_field_eq Let_def)
  have n: "map name [new_KachyError m, new_KachyConnectionError m,
                new_KachyAuthenticationError m, new_KachyResponseError m]
       = [''KachyError'', ''KachyConnectionError'', ''KachyAuthenticationError'',
          ''KachyResponseError'']"
    by (simp add: new_error_defs)
  have g: "map message [new_KachyError m, new_KachyConnectionError m,
                   new_KachyAuthenticationError m, new_KachyResponseError m] = [m, m, m, m]"
    by (simp add: new_error_defs)
  note i = instanceof_Kachy [of m]
  show ?thesis
    by (intro conjI a b c k d n g i)
qed

text \<open>
  C1, worked example: a 401, a 500 with a message in its body, a 400 whose message is the
  boolean \<open>true\<close>, a 404 with an HTML body, a timeout, a refused connection, a reset
  connection, and \<open>get\<close> on a transport that times out.
\<close>

theorem C1_error_normalization_witness:
  "response_error (example_runtime Map.empty) (http_error 401 ''Unauthorized'' JNull)
     = new_KachyAuthenticationError ''Authentication failed''
   \<and> response_error (example_runtime Map.empty)
       (http_error 500 ''Internal Server Error'' (JObj [(''message'', JStr ''unknown command'')]))
     = new_KachyResponseError ''API error 500: unknown command''
   \<and> response_error (example_runtime Map.empty)
       (http_error 400 ''Bad Request'' (JObj [(''message'', JBool True)]))
     = new_KachyResponseError ''API error 400: true''
   \<and> response_error (example_runtime Map.empty) (http_error 404 ''Not Found'' (JStr ''<html>''))
     = new_KachyResponseError ''API error 404: Not Found''
   \<and> response_error (example_runtime Map.empty)
       (transport_error ''ECONNABORTED'' ''timeout of 10000ms exceeded'')
     = new_KachyConnectionError ''Request timeout''
   \<and> response_error (example_runtime Map.empty)
       (transport_error ''ECONNREFUSED'' ''connect ECONNREFUSED 127.0.0.1:443'')
     = new_KachyConnectionError ''Connection failed''
   \<and> response_error (example_runtime Map.empty) (transport_error ''ECONNRESET'' ''socket hang up'')
     = new_KachyConnectionError ''Request failed: socket hang up''
   \<and> cls (response_error (example_runtime Map.empty)
             (http_error 500 ''Internal Server Error''
                (JObj [(''message'', JStr ''unknown command'')])))
     \<in> {KachyAuthenticationError, KachyResponseError, KachyConnectionError}
   \<and> fst (KachyClient_get
            (KachyClient_new (example_runtime Map.empty)
               (rejecting (transport_error ''ECONNABORTED'' ''timeout of 10000ms exceeded''))
               example_config)
            ''greeting'' (0::nat))
     = Inl (new_KachyConnectionError ''Request timeout'')"
proof -
  let ?rt = "example_runtime Map.empty"
  let ?to = "transport_error ''ECONNABORTED'' ''timeout of 10000ms exceeded''"
  let ?e500 = "http_error 500 ''Internal Server Error''
                 (JObj [(''message'', JStr ''unknown command'')])"
  have 1: "response_error ?rt (http_error 401 ''Unauthorized'' JNull)
             = new_KachyAuthenticationError ''Authentication failed''"
    using C1_error_normalization
      [where e = "http_error 401 ''Unauthorized'' JNull"
         and r = "\<lparr>status = 401, statusText = ''Unauthorized'', resp_data = JNull\<rparr>"
         and rt = "?rt", THEN conjunct1]
    by (simp add: http_error_def)
  have 2: "response_error ?rt ?e500 = new_KachyResponseError ''API error 500: unknown command''"
    using C1_error_normalization
      [where e = "?e500"
         and r = "\<lparr>status = 500, statusText = ''Internal Server Error'',
                   resp_data = JObj [(''message'', JStr ''unknown command'')]\<rparr>"
         and rt = "?rt" and s = "''unknown command''", THEN conjunct2, THEN conjunct1]
    by (simp add: http_error_def)
  have 3: "response_error ?rt (http_error 400 ''Bad Request'' (JObj [(''message'', JBool True)]))
             = new_KachyResponseError ''API error 400: true''"
    using C1_error_normalization
      [where e = "http_error 400 ''Bad Request'' (JObj [(''message'', JBool True)])"
         and r = "\<lparr>status = 400, statusText = ''Bad Request'',
                   resp_data = JObj [(''message'', JBool True)]\<rparr>"
         and rt = "?rt" and s = "''true''", THEN conjunct2, THEN conjunct1]
    by (simp add: http_error_def)
  have 4: "response_error ?rt (http_error 404 ''Not Found'' (JStr ''<html>''))
             = new_KachyResponseError ''API error 404: Not Found''"
    using C1_error_normalization
      [where e = "http_error 404 ''Not Found'' (JStr ''<html>'')"
         and r = "\<lparr>status = 404, statusText = ''Not Found'', resp_data = JStr ''<html>''\<rparr>"
         and rt = "?rt", THEN conjunct2, THEN conjunct1]
    by (simp add: http_error_def)
  have 5: "response_error ?rt ?to = new_KachyConnectionError ''Request timeout''"
    using C1_error_normalization
      [where e = "?to" and rt = "?rt", THEN conjunct2, THEN conjunct2, THEN conjunct1]
    by (simp add: transport_error_def)
  have 6: "response_error ?rt (transport_error ''ECONNREFUSED'' ''connect ECONNREFUSED 127.0.0.1:443'')
             = new_KachyConnectionError ''Connection failed''"
    using C1_error_normalization
      [where e = "transport_error ''ECONNREFUSED'' ''connect ECONNREFUSED 127.0.0.1:443''"
         and rt = "?rt", THEN conjunct2, THEN conjunct2, THEN conjunct1]
    by (simp add: transport_error_def)
  have 7: "response_error ?rt (transport_error ''ECONNRESET'' ''socket hang up'')
             = new_KachyConnectionError ''Request failed: socket hang up''"
    using C1_error_normalization
      [where e = "transport_error ''ECONNRESET'' ''socket hang up''"
         and rt = "?rt", THEN conjunct2, THEN conjunct2, THEN conjunct1]
    by (simp add: transport_error_def)
  have 8: "cls (response_error ?rt ?e500)
             \<in> {KachyAuthenticationError, KachyResponseError, KachyConnectionError}"
    using C1_error_normalization
      [where e = "?e500" and rt = "?rt",
       THEN conjunct2, THEN conjunct2, THEN conjunct2, THEN conjunct1]
    by (simp add: http_error_def)
  have 9: "fst (KachyClient_get (KachyClient_new ?rt (rejecting ?to) example_config)
                  ''greeting'' (0::nat)) = Inl (response_error ?rt ?to)"
    using C1_error_normalization
      [where e = "?to" and rt = "?rt" and t = "rejecting ?to" and w = "0::nat"
         and cfg = example_config and key = "''greeting''",
       THEN conjunct2, THEN conjunct2, THEN conjunct2, THEN conjunct2, THEN conjunct1]
    by (simp add: rejecting_def)
  show ?thesis
    using 1 2 3 4 5 6 7 8 9 by simp
qed

text \<open>
  C1 as stated fails on ``the message field if present'': a 500 response whose body holds
  the message field with the empty string yields the status text, not the field.
\<close>

theorem C1_empty_message_counterexample:
  "optional_member (JObj [(''message'', JStr '''')]) ''message'' = JStr ''''
   \<and> message (response_error (example_runtime Map.empty)
                 (http_error 500 ''Internal Server Error'' (JObj [(''message'', JStr '''')])))
       = ''API error 500: Internal Server Error''
   \<and> message (response_error (example_runtime Map.empty)
                 (http_error 500 ''Internal Server Error'' (JObj [(''message'', JStr '''')])))
       \<noteq> ''API error 500: ''"
  by (simp add: response_error_def http_error_def new_error_defs)

section \<open>Requests on the wire\<close>

lemma sent_request_field:
  "sent (request_field (KachyClient_new rt (recording t) cfg) a k (tr, w)) = tr @ [outgoing rt cfg a]"
  by (simp add: sent_def request_field_recording)

lemma asks_outgoing: "asks (outgoing rt cfg a) = (method a, url a, data a)"
  by (simp add: asks_def outgoing_def intercepted_def)


lemma feed_Cons:
  "feed t (r # rs) w =
     (fst (t r w) # fst (feed t rs (snd (t r w))), snd (feed t rs (snd (t r w))))"
  by (simp split: prod.splits)

lemma length_feed: "length (fst (feed t rs w)) = length rs"
  by (induction rs arbitrary: w) (simp_all add: feed_Cons del: feed.simps(2))

lemma replay_recording:
  "replay rt' (KachyClient_new rt (recording t) cfg) cmds acc (tr, w) =
     (Inr (acc @ map (descriptor \<circ> settle rt ''result'')
              (fst (feed t (map (\<lambda>c. outgoing rt cfg (exec_args rt' (command c) (args c))) cmds)
                      w))),
      (tr @ map (\<lambda>c. outgoing rt cfg (exec_args rt' (command c) (args c))) cmds,
       snd (feed t (map (\<lambda>c. outgoing rt cfg (exec_args rt' (command c) (args c))) cmds) w)))"
proof (induction cmds arbitrary: acc tr w)
  case Nil
  show ?case by simp
next
  case (Cons cmd cmds)
  let ?r = "outgoing rt cfg (exec_args rt' (command cmd) (args cmd))"
  show ?case
  proof (cases "settle rt ''result'' (fst (t ?r w))")
    case (Inl e)
    then show ?thesis
      by (simp add: redis_recording Cons.IH feed_Cons del: feed.simps(2))
  next
    case (Inr v)
    then show ?thesis
      by (simp add: redis_recording Cons.IH feed_Cons del: feed.simps(2))
  qed
qed

lemma execute_recording:
  "KachyPipeline_execute rt' \<lparr>client = KachyClient_new rt (recording t) cfg, commands = cmds\<rparr>
     ([], w) =
     (Inr (map (descriptor \<circ> settle rt ''result'')
             (fst (feed t (map (\<lambda>c. outgoing rt cfg (exec_args rt' (command c) (args c))) cmds)
                     w))),
      \<lparr>client = KachyClient_new rt (recording t) cfg, commands = []\<rparr>,
      (map (\<lambda>c. outgoing rt cfg (exec_args rt' (command c) (args c))) cmds,
       snd (feed t (map (\<lambda>c. outgoing rt cfg (exec_args rt' (command c) (args c))) cmds) w)))"
  by (cases cmds) (simp_all add: KachyPipeline_execute_def replay_recording del: replay.simps)

lemma fulfilled_field:
  "\<forall>req \<in> set (sent (request_field (KachyClient_new rt (recording t) cfg) a k ([], w))).
      fst (t req w) = Fulfilled r \<Longrightarrow>
   resp_data r = JObj body \<Longrightarrow> map_of body k = Some v \<Longrightarrow>
     fst (request_field (KachyClient_new rt (recording t) cfg) a k ([], w)) = Inr v"
  by (simp add: request_field_recording sent_def)

lemma toUpperChar_not_lower: "\<not> lower_case_letter (toUpperChar ch)"
  by (simp add: toUpperChar_def lower_case_letter_def)

lemma toUpperChar_other: "\<not> lower_case_letter ch \<Longrightarrow> toUpperChar ch = ch"
  by (simp add: toUpperChar_def lower_case_letter_def)

lemma toUpperChar_ascii: "(of_char c :: nat) < 128 \<Longrightarrow> (of_char (toUpperChar c) :: nat) < 128"
proof (cases "lower_case_letter c")
  case False
  assume "(of_char c :: nat) < 128"
  with False show ?thesis by (simp add: toUpperChar_other)
next
  case True
  then have "toUpperChar c \<in> set ''ABCDEFGHIJKLMNOPQRSTUVWXYZ''"
    by (auto simp: toUpperChar_def lower_case_letter_def)
  then show ?thesis by auto
qed

lemma toUpperCase_ascii: "ascii s \<Longrightarrow> toUpperCase rt s = map toUpperChar s"
  by (simp add: toUpperCase_def)

lemma ascii_upper: "ascii s \<Longrightarrow> ascii (map toUpperChar s)"
  by (simp add: ascii_def list_all_iff toUpperChar_ascii)

lemma toUpperCase_idem: "ascii s \<Longrightarrow> toUpperCase rt (toUpperCase rt s) = toUpperCase rt s"
  by (simp add: toUpperCase_ascii ascii_upper toUpperChar_other toUpperChar_not_lower)

lemma toUpperCase_SET: "toUpperCase rt ''SET'' = ''SET''"
  by (simp add: toUpperCase_def ascii_def toUpperChar_def)


lemma example_server_ok:
  "optional_member (case data req of Some d \<Rightarrow> d | None \<Rightarrow> JUndefined) ''command'' \<noteq> JStr ''BOOM''
     \<Longrightarrow> example_server req n = (Fulfilled ok_response, Suc n)"
  by (simp add: example_server_def ok_response_def)






text \<open>
  C7. \<open>set\<close> without an expiration sends one POST to \<open>/valkey/set\<close> whose body holds
  exactly \<open>key\<close> and \<open>value\<close>, so reading \<open>ex\<close> from it gives \<open>undefined\<close>; with an
  expiration the body holds \<open>ex\<close> as well, equal to the argument. In both cases, when the
  transport answers the request with a body that has a \<open>success\<close> field, \<open>set\<close> returns
  that field.
\<close>

theorem C7_set_body_and_result:
  assumes c: "c = KachyClient_new rt (recording t) cfg"
  shows "map asks (sent (KachyClient_set c key val None ([], w)))
           = [(POST, ''/valkey/set'', Some (JObj [(''key'', JStr key), (''value'', JStr val)]))]
       \<and> optional_member (JObj [(''key'', JStr key), (''value'', JStr val)]) ''ex'' = JUndefined
       \<and> map asks (sent (KachyClient_set c key val (Some n) ([], w)))
           = [(POST, ''/valkey/set'',
               Some (JObj [(''key'', JStr key), (''value'', JStr val), (''ex'', JNum n)]))]
       \<and> ((\<forall>req \<in> set (sent (KachyClient_set c key val ex ([], w))).
               fst (t req w) = Fulfilled r) \<and>
            resp_data r = JObj body \<and> map_of body ''success'' = Some b \<longrightarrow>
              fst (KachyClient_set c key val ex ([], w)) = Inr b)"
proof -
  have a: "map asks (sent (KachyClient_set c key val None ([], w)))
           = [(POST, ''/valkey/set'', Some (JObj [(''key'', JStr key), (''value'', JStr val)]))]"
    unfolding c by (simp add: KachyClient_set_def sent_request_field asks_outgoing)
  have b: "optional_member (JObj [(''key'', JStr key), (''value'', JStr val)]) ''ex'' = JUndefined"
    by simp
  have d: "map asks (sent (KachyClient_set c key val (Some n) ([], w)))
           = [(POST, ''/valkey/set'',
               Some (JObj [(''key'', JStr key), (''value'', JStr val), (''ex'', JNum n)]))]"
    unfolding c by (simp add: KachyClient_set_def sent_request_field asks_outgoing)
  have e: "(\<forall>req \<in> set (sent (KachyClient_set c key val ex ([], w))).
               fst (t req w) = Fulfilled r) \<and>
            resp_data r = JObj body \<and> map_of body ''success'' = Some b \<longrightarrow>
              fst (KachyClient_set c key val ex ([], w)) = Inr b"
    unfolding c KachyClient_set_def Let_def
    by (intro impI, elim conjE, erule (2) fulfilled_field)
  show ?thesis by (intro conjI a b d e)
qed

text \<open>
  C7, worked example: \<open>set('greeting', 'Hello')\<close> and \<open>set('session:abc', 'active', 3600)\<close>
  against the example server.
\<close>

theorem C7_set_witness:
  "map asks (sent (KachyClient_set example_client ''greeting'' ''Hello'' None ([], 0)))
     = [(POST, ''/valkey/set'',
         Some (JObj [(''key'', JStr ''greeting''), (''value'', JStr ''Hello'')]))]
   \<and> map asks (sent (KachyClient_set example_client ''session:abc'' ''active''
                        (Some (Num 3600)) ([], 0)))
     = [(POST, ''/valkey/set'',
         Some (JObj [(''key'', JStr ''session:abc''), (''value'', JStr ''active''),
                     (''ex'', JNum (Num 3600))]))]
   \<and> fst (KachyClient_set example_client ''session:abc'' ''active'' (Some (Num 3600)) ([], 0))
     = Inr (JBool True)"
proof -
  note t1 = C7_set_body_and_result
    [where c = example_client and rt = "example_runtime Map.empty" and t = example_server
       and cfg = example_config and w = 0 and key = "''greeting''" and val = "''Hello''",
     OF example_client_def]
  note t2 = C7_set_body_and_result
    [where c = example_client and rt = "example_runtime Map.empty" and t = example_server
       and cfg = example_config and w = 0 and key = "''session:abc''" and val = "''active''"
       and n = "Num 3600" and ex = "Some (Num 3600)" and r = ok_response
       and body = "[(''success'', JBool True), (''result'', JStr ''OK'')]" and b = "JBool True",
     OF example_client_def]
  have s: "map asks (sent (KachyClient_set example_client ''session:abc'' ''active''
                             (Some (Num 3600)) ([], 0)))
     = [(POST, ''/valkey/set'',
         Some (JObj [(''key'', JStr ''session:abc''), (''value'', JStr ''active''),
                     (''ex'', JNum (Num 3600))]))]"
    using t2 [THEN conjunct2, THEN conjunct2, THEN conjunct1] by simp
  have q: "\<forall>req \<in> set (sent (KachyClient_set example_client ''session:abc'' ''active''
                                   (Some (Num 3600)) ([], 0))).
             fst (example_server req 0) = Fulfilled ok_response"
  proof
    fix req
    assume "req \<in> set (sent (KachyClient_set example_client ''session:abc'' ''active''
                                   (Some (Num 3600)) ([], 0)))"
    then have "asks req \<in> set (map asks (sent (KachyClient_set example_client ''session:abc''
                                   ''active'' (Some (Num 3600)) ([], 0))))"
      by simp
    then have "data req = Some (JObj [(''key'', JStr ''session:abc''), (''value'', JStr ''active''),
                     (''ex'', JNum (Num 3600))])"
      unfolding s by (simp add: asks_def)
    then show "fst (example_server req 0) = Fulfilled ok_response"
      by (simp add: example_server_ok)
  qed
  have "fst (KachyClient_set example_client ''session:abc'' ''active'' (Some (Num 3600)) ([], 0))
          = Inr (JBool True)"
    using t2 [THEN conjunct2, THEN conjunct2, THEN conjunct2] q by (simp add: ok_response_def)
  then show ?thesis
    using t1 [THEN conjunct1] s by simp
qed

text \<open>
  C8. The raw command sends one POST to \<open>/valkey/exec\<close> whose body holds \<open>command\<close>, the
  name in upper case, and \<open>args\<close>, the argument list. Upper case: in a name of ASCII
  characters, position by position, each of the 26 lower-case letters is replaced by its
  capital and every other character is kept, so no lower-case letter remains and an
  upper-case name is unchanged; a name with a character outside ASCII is upper-cased as
  the platform does it. When the transport answers with a body that has a \<open>result\<close>
  field, the operation returns that field as it is. The pipeline's \<open>redis\<close> queues the
  name in upper case too.
\<close>

theorem C8_raw_command_upper_case:
  assumes c: "c = KachyClient_new rt (recording t) cfg"
  shows "map asks (sent (KachyClient_redis rt c nm as ([], w)))
           = [(POST, ''/valkey/exec'',
               Some (JObj [(''command'', JStr (toUpperCase rt nm)), (''args'', JArr as)]))]
       \<and> (ascii nm \<longrightarrow>
            length (toUpperCase rt nm) = length nm \<and>
            (\<forall>i < length nm.
               toUpperCase rt nm ! i = toUpperChar (nm ! i) \<and>
               \<not> lower_case_letter (toUpperCase rt nm ! i) \<and>
               (\<not> lower_case_letter (nm ! i) \<longrightarrow> toUpperCase rt nm ! i = nm ! i)) \<and>
            toUpperCase rt (toUpperCase rt nm) = toUpperCase rt nm)
       \<and> (\<not> ascii nm \<longrightarrow> toUpperCase rt nm = unicodeUpperCase rt nm)
       \<and> map toUpperChar ''abcdefghijklmnopqrstuvwxyz'' = ''ABCDEFGHIJKLMNOPQRSTUVWXYZ''
       \<and> ((\<forall>req \<in> set (sent (KachyClient_redis rt c nm as ([], w))).
               fst (t req w) = Fulfilled r) \<and>
            resp_data r = JObj body \<and> map_of body ''result'' = Some v \<longrightarrow>
              fst (KachyClient_redis rt c nm as ([], w)) = Inr v)
       \<and> commands (KachyPipeline_redis rt p nm as)
           = commands p @ [\<lparr>command = toUpperCase rt nm, args = as\<rparr>]"
proof -
  have a: "map asks (sent (KachyClient_redis rt c nm as ([], w)))
           = [(POST, ''/valkey/exec'',
               Some (JObj [(''command'', JStr (toUpperCase rt nm)), (''args'', JArr as)]))]"
    unfolding c by (simp add: KachyClient_redis_def sent_request_field asks_outgoing)
  have b: "ascii nm \<longrightarrow>
            length (toUpperCase rt nm) = length nm \<and>
            (\<forall>i < length nm.
               toUpperCase rt nm ! i = toUpperChar (nm ! i) \<and>
               \<not> lower_case_letter (toUpperCase rt nm ! i) \<and>
               (\<not> lower_case_letter (nm ! i) \<longrightarrow> toUpperCase rt nm ! i = nm ! i)) \<and>
            toUpperCase rt (toUpperCase rt nm) = toUpperCase rt nm"
  proof
    assume x: "ascii nm"
    have u: "toUpperCase rt nm = map toUpperChar nm"
      using x by (rule toUpperCase_ascii)
    have i: "toUpperCase rt (toUpperCase rt nm) = toUpperCase rt nm"
      using x by (rule toUpperCase_idem)
    have "length (map toUpperChar nm) = length nm \<and>
            (\<forall>i < length nm.
               map toUpperChar nm ! i = toUpperChar (nm ! i) \<and>
               \<not> lower_case_letter (map toUpperChar nm ! i) \<and>
               (\<not> lower_case_letter (nm ! i) \<longrightarrow> map toUpperChar nm ! i = nm ! i))"
      by (simp add: toUpperChar_not_lower toUpperChar_other)
    with i show "length (toUpperCase rt nm) = length nm \<and>
            (\<forall>i < length nm.
               toUpperCase rt nm ! i = toUpperChar (nm ! i) \<and>
               \<not> lower_case_letter (toUpperCase rt nm ! i) \<and>
               (\<not> lower_case_letter (nm ! i) \<longrightarrow> toUpperCase rt nm ! i = nm ! i)) \<and>
            toUpperCase rt (toUpperCase rt nm) = toUpperCase rt nm"
      unfolding u by blast
  qed
  have d: "\<not> ascii nm \<longrightarrow> toUpperCase rt nm = unicodeUpperCase rt nm"
    by (simp add: toUpperCase_def)
  have e: "map toUpperChar ''abcdefghijklmnopqrstuvwxyz'' = ''ABCDEFGHIJKLMNOPQRSTUVWXYZ''"
    by (simp add: toUpperChar_def)
  have f: "(\<forall>req \<in> set (sent (KachyClient_redis rt c nm as ([], w))).
               fst (t req w) = Fulfilled r) \<and>
            resp_data r = JObj body \<and> map_of body ''result'' = Some v \<longrightarrow>
              fst (KachyClient_redis rt c nm as ([], w)) = Inr v"
    unfolding c KachyClient_redis_def
    by (intro impI, elim conjE, erule (2) fulfilled_field)
  have g: "commands (KachyPipeline_redis rt p nm as)
           = commands p @ [\<lparr>command = toUpperCase rt nm, args = as\<rparr>]"
    by (simp add: KachyPipeline_redis_def push_def)
  show ?thesis by (intro conjI a b d e f g)
qed

text \<open>
  C8, worked example: \<open>redis('hmget', 'user:123:profile', 'age', 'city')\<close> sends the
  command \<open>HMGET\<close>; outside ASCII, the German \<open>strasse\<close> written with the sharp s is
  upper-cased by the example runtime to \<open>STRASSE\<close>, one character longer.
\<close>

theorem C8_raw_command_witness:
  "map asks (sent (KachyClient_redis (example_runtime Map.empty) example_client ''hmget''
                     [JStr ''user:123:profile'', JStr ''age'', JStr ''city''] ([], 0)))
     = [(POST, ''/valkey/exec'',
         Some (JObj [(''command'', JStr ''HMGET''),
                     (''args'', JArr [JStr ''user:123:profile'', JStr ''age'', JStr ''city''])]))]
   \<and> ascii ''hmget''
   \<and> toUpperCase (example_runtime Map.empty) ''hmget'' = ''HMGET''
   \<and> toUpperCase (example_runtime Map.empty) ''HmGet'' = ''HMGET''
   \<and> toUpperCase (example_runtime Map.empty) ''HMGET'' = ''HMGET''
   \<and> \<not> ascii (''stra'' @ [CHR 0xC3, CHR 0x9F] @ ''e'')
   \<and> toUpperCase (example_runtime Map.empty) (''stra'' @ [CHR 0xC3, CHR 0x9F] @ ''e'')
       = ''STRASSE''
   \<and> fst (KachyClient_redis (example_runtime Map.empty) example_client ''hmget''
            [JStr ''user:123:profile'', JStr ''age'', JStr ''city''] ([], 0))
     = Inr (JStr ''OK'')"
proof -
  let ?rt = "example_runtime Map.empty"
  let ?as = "[JStr ''user:123:profile'', JStr ''age'', JStr ''city'']"
  let ?strasse = "''stra'' @ [CHR 0xC3, CHR 0x9F] @ ''e''"
  note t = C8_raw_command_upper_case
    [where c = example_client and rt = "?rt" and t = example_server
       and cfg = example_config and w = 0 and nm = "''hmget''" and as = "?as"
       and r = ok_response and body = "[(''success'', JBool True), (''result'', JStr ''OK'')]"
       and v = "JStr ''OK''",
     OF example_client_def]
  note t' = C8_raw_command_upper_case
    [where c = example_client and rt = "?rt" and t = example_server
       and cfg = example_config and nm = "?strasse",
     OF example_client_def, THEN conjunct2, THEN conjunct2, THEN conjunct1]
  have x: "ascii ''hmget''" "\<not> ascii ?strasse"
    by (simp_all add: ascii_def)
  have u: "toUpperCase ?rt ''hmget'' = ''HMGET''"
    by (simp add: toUpperCase_def ascii_def toUpperChar_def)
  have i: "toUpperCase ?rt ''HMGET'' = ''HMGET''"
    using t [THEN conjunct2, THEN conjunct1] x(1) unfolding u by simp
  have m: "toUpperCase ?rt ''HmGet'' = ''HMGET''"
    by (simp add: toUpperCase_def ascii_def toUpperChar_def)
  have n: "toUpperCase ?rt ?strasse = ''STRASSE''"
    using t' x(2) by (simp add: example_runtime_def toUpperChar_def)
  have s: "map asks (sent (KachyClient_redis ?rt example_client ''hmget'' ?as ([], 0)))
     = [(POST, ''/valkey/exec'',
         Some (JObj [(''command'', JStr ''HMGET''), (''args'', JArr ?as)]))]"
    using t [THEN conjunct1] by (simp add: u)
  have q: "\<forall>req \<in> set (sent (KachyClient_redis ?rt example_client ''hmget'' ?as ([], 0))).
             fst (example_server req 0) = Fulfilled ok_response"
  proof
    fix req
    assume "req \<in> set (sent (KachyClient_redis ?rt example_client ''hmget'' ?as ([], 0)))"
    then have "asks req \<in> set (map asks (sent (KachyClient_redis ?rt example_client ''hmget'' ?as
                                                ([], 0))))"
      by simp
    then have "data req = Some (JObj [(''command'', JStr ''HMGET''), (''args'', JArr ?as)])"
      unfolding s by (simp add: asks_def)
    then show "fst (example_server req 0) = Fulfilled ok_response"
      by (simp add: example_server_ok)
  qed
  note r = t [THEN conjunct2, THEN conjunct2, THEN conjunct2, THEN conjunct2, THEN conjunct1]
  have "fst (KachyClient_redis ?rt example_client ''hmget'' ?as ([], 0)) = Inr (JStr ''OK'')"
    using r q by (simp add: ok_response_def)
  then show ?thesis
    using s u i m n x by simp
qed

section \<open>Pipeline: properties\<close>

lemma asks_exec:
  "map asks (map (\<lambda>c. outgoing rt cfg (exec_args rt' (command c) (args c))) cmds) =
     map (\<lambda>c. (POST, ''/valkey/exec'',
                 Some (JObj [(''command'', JStr (toUpperCase rt' (command c))),
                             (''args'', JArr (args c))]))) cmds"
  by (simp add: asks_outgoing exec_args_def)

lemma descriptor_settle:
  "descriptor (settle rt ''result'' out) =
     (case out of
        Fulfilled r \<Rightarrow>
          (case member_of (resp_data r) ''result'' of
             Inr v \<Rightarrow> v
           | Inl e \<Rightarrow> JObj [(''error'', JStr (message e))])
      | Rejected e \<Rightarrow> JObj [(''error'', JStr (message (response_error rt e)))])"
  by (cases out) (simp_all split: sum.splits)

lemma toUpperCase_BOOM: "toUpperCase rt ''BOOM'' = ''BOOM''"
  by (simp add: toUpperCase_def ascii_def toUpperChar_def)

lemma toUpperCase_GET: "toUpperCase rt ''GET'' = ''GET''"
  by (simp add: toUpperCase_def ascii_def toUpperChar_def)

lemma example_pipeline_eq:
  "example_pipeline =
     \<lparr>client = KachyClient_new (example_runtime Map.empty) (recording example_server) example_config,
      commands = [\<lparr>command = ''SET'', args = [JStr ''batch:1'', JStr ''value1'']\<rparr>,
                  \<lparr>command = ''BOOM'', args = []\<rparr>,
                  \<lparr>command = ''GET'', args = [JStr ''batch:1'']\<rparr>]\<rparr>"
  by (simp add: example_pipeline_def KachyPipeline_get_def KachyPipeline_redis_def
        KachyPipeline_set_def push_def pipeline_def KachyPipeline_new_def example_client_def
        toUpperCase_def ascii_def toUpperChar_def)

lemma example_server_boom:
  "example_server (outgoing rt cfg (exec_args rt' ''BOOM'' as)) n =
     (Rejected (http_error 500 ''Internal Server Error''
                  (JObj [(''message'', JStr ''unknown command'')])), Suc n)"
  by (simp add: example_server_def outgoing_def intercepted_def exec_args_def toUpperCase_BOOM)

lemma example_server_set:
  "example_server (outgoing rt cfg (exec_args rt' ''SET'' as)) n = (Fulfilled ok_response, Suc n)"
  by (rule example_server_ok)
     (simp add: outgoing_def intercepted_def exec_args_def toUpperCase_SET)

lemma example_server_get:
  "example_server (outgoing rt cfg (exec_args rt' ''GET'' as)) n = (Fulfilled ok_response, Suc n)"
  by (rule example_server_ok)
     (simp add: outgoing_def intercepted_def exec_args_def toUpperCase_GET)

lemma list3_eq: "length xs = 3 \<Longrightarrow> xs ! 0 = a \<Longrightarrow> xs ! 1 = b \<Longrightarrow> xs ! 2 = c \<Longrightarrow> xs = [a, b, c]"
  by (cases xs; cases "tl xs"; cases "tl (tl xs)") auto

text \<open>
  C2. \<open>execute\<close> hands the transport one raw-command request per queued command, in the
  order of the queue, each a POST to \<open>/valkey/exec\<close> with the command's name and
  arguments. It never fails as a whole: it returns a list with one entry per command,
  and the entry at position \<open>i\<close> is read from the transport's answer to the \<open>i\<close>-th
  request: the \<open>result\<close> field of a fulfilled response, or an object \<open>{error: message}\<close>
  holding the message of the error the client raised (the normalized error of a rejected
  request, or the TypeError of a body that is \<open>null\<close> or \<open>undefined\<close>). A failed command
  changes neither the number of requests nor the entries after it.
\<close>

theorem C2_execute_replays_every_command:
  assumes x: "x = KachyPipeline_execute rt
                    \<lparr>client = KachyClient_new rt (recording t) cfg, commands = cmds\<rparr> ([], w)"
    and o: "outs = fst (feed t (sent_by_execute x) w)"
  shows "map asks (sent_by_execute x) =
           map (\<lambda>c. (POST, ''/valkey/exec'',
                      Some (JObj [(''command'', JStr (toUpperCase rt (command c))),
                                  (''args'', JArr (args c))]))) cmds
       \<and> length outs = length cmds
       \<and> (\<exists>results. fst x = Inr results \<and> length results = length cmds \<and>
            (\<forall>i < length cmds.
               results ! i =
                 (case outs ! i of
                    Fulfilled r \<Rightarrow>
                      (case member_of (resp_data r) ''result'' of
                         Inr v \<Rightarrow> v
                       | Inl e \<Rightarrow> JObj [(''error'', JStr (message e))])
                  | Rejected e \<Rightarrow> JObj [(''error'', JStr (message (response_error rt e)))])))"
proof -
  let ?reqs = "map (\<lambda>c. outgoing rt cfg (exec_args rt (command c) (args c))) cmds"
  have s: "sent_by_execute x = ?reqs"
    by (simp add: x execute_recording sent_by_execute_def)
  have r: "fst x = Inr (map (descriptor \<circ> settle rt ''result'') outs)"
    by (simp add: o s) (simp add: x execute_recording)
  have l: "length outs = length cmds"
    by (simp add: o s length_feed)
  have a: "map asks (sent_by_execute x) =
           map (\<lambda>c. (POST, ''/valkey/exec'',
                      Some (JObj [(''command'', JStr (toUpperCase rt (command c))),
                                  (''args'', JArr (args c))]))) cmds"
    by (simp only: s asks_exec)
  have p: "\<forall>i < length cmds.
             map (descriptor \<circ> settle rt ''result'') outs ! i =
               (case outs ! i of
                    Fulfilled r \<Rightarrow>
                      (case member_of (resp_data r) ''result'' of
                         Inr v \<Rightarrow> v
                       | Inl e \<Rightarrow> JObj [(''error'', JStr (message e))])
                  | Rejected e \<Rightarrow> JObj [(''error'', JStr (message (response_error rt e)))])"
    using l by (simp add: descriptor_settle)
  show ?thesis
    using a l r p by simp
qed

text \<open>
  C2, worked example: three queued commands of which the server refuses the second with
  status 500; the results hold the error descriptor at the second position and the
  server's results at the other two.
\<close>

theorem C2_pipeline_witness:
  "map asks (sent_by_execute
               (KachyPipeline_execute (example_runtime Map.empty) example_pipeline ([], 0)))
     = [(POST, ''/valkey/exec'',
         Some (JObj [(''command'', JStr ''SET''),
                     (''args'', JArr [JStr ''batch:1'', JStr ''value1''])])),
        (POST, ''/valkey/exec'', Some (JObj [(''command'', JStr ''BOOM''), (''args'', JArr [])])),
        (POST, ''/valkey/exec'',
         Some (JObj [(''command'', JStr ''GET''), (''args'', JArr [JStr ''batch:1''])]))]
   \<and> fst (KachyPipeline_execute (example_runtime Map.empty) example_pipeline ([], 0))
     = Inr [JStr ''OK'',
            JObj [(''error'', JStr ''API error 500: unknown command'')],
            JStr ''OK'']"
proof -
  let ?rt = "example_runtime Map.empty"
  let ?cmds = "[\<lparr>command = ''SET'', args = [JStr ''batch:1'', JStr ''value1'']\<rparr>,
                \<lparr>command = ''BOOM'', args = []\<rparr>,
                \<lparr>command = ''GET'', args = [JStr ''batch:1'']\<rparr>]"
  let ?x = "KachyPipeline_execute ?rt example_pipeline ([], 0::nat)"
  let ?outs = "fst (feed example_server (sent_by_execute ?x) 0)"
  have x: "?x = KachyPipeline_execute ?rt
                  \<lparr>client = KachyClient_new ?rt (recording example_server) example_config,
                   commands = ?cmds\<rparr> ([], 0)"
    by (simp only: example_pipeline_eq)
  note t = C2_execute_replays_every_command [OF x refl]
  have a: "map asks (sent_by_execute ?x)
     = [(POST, ''/valkey/exec'',
         Some (JObj [(''command'', JStr ''SET''),
                     (''args'', JArr [JStr ''batch:1'', JStr ''value1''])])),
        (POST, ''/valkey/exec'', Some (JObj [(''command'', JStr ''BOOM''), (''args'', JArr [])])),
        (POST, ''/valkey/exec'',
         Some (JObj [(''command'', JStr ''GET''), (''args'', JArr [JStr ''batch:1''])]))]"
    using t [THEN conjunct1] by (simp add: toUpperCase_SET toUpperCase_BOOM toUpperCase_GET)
  have outs: "?outs = [Fulfilled ok_response,
                       Rejected (http_error 500 ''Internal Server Error''
                                   (JObj [(''message'', JStr ''unknown command'')])),
                       Fulfilled ok_response]"
    by (simp add: x execute_recording sent_by_execute_def example_server_boom
          example_server_set example_server_get)
  from t obtain results where r: "fst ?x = Inr results" "length results = 3"
    and n: "\<forall>i < 3. results ! i =
                 (case ?outs ! i of
                    Fulfilled r \<Rightarrow>
                      (case member_of (resp_data r) ''result'' of
                         Inr v \<Rightarrow> v
                       | Inl e \<Rightarrow> JObj [(''error'', JStr (message e))])
                  | Rejected e \<Rightarrow> JObj [(''error'', JStr (message (response_error ?rt e)))])"
    by auto
  have m: "message (response_error ?rt (http_error 500 ''Internal Server Error''
                                          (JObj [(''message'', JStr ''unknown command'')])))
             = ''API error 500: unknown command''"
    by (simp add: response_error_def http_error_def new_error_defs)
  have "results ! 0 = JStr ''OK''" "results ! 1 = JObj [(''error'', JStr ''API error 500: unknown command'')]"
    "results ! 2 = JStr ''OK''"
    using n m by (simp_all add: outs ok_response_def)
  then have "results = [JStr ''OK'', JObj [(''error'', JStr ''API error 500: unknown command'')],
                        JStr ''OK'']"
    using r(2) by (intro list3_eq)
  then show ?thesis
    using a r(1) by simp
qed

text \<open>
  C4. On an empty queue \<open>execute\<close> returns the empty list and leaves the pipeline and the
  world as they are: no request is recorded. After \<open>execute\<close> on any queue, whatever the
  commands returned or raised and whether \<open>execute\<close> returns or re-raises, the queue is
  empty and the length is 0; the client is the same.
\<close>

theorem C4_execute_clears_the_queue:
  "KachyPipeline_execute rt (p\<lparr>commands := []\<rparr>) w = (Inr [], p\<lparr>commands := []\<rparr>, w)
   \<and> sent_by_execute
        (KachyPipeline_execute rt
           \<lparr>client = KachyClient_new rt (recording t) cfg, commands = []\<rparr> (tr, w')) = tr
   \<and> commands (fst (snd (KachyPipeline_execute rt p w))) = []
   \<and> pipeline_length (fst (snd (KachyPipeline_execute rt p w))) = 0
   \<and> client (fst (snd (KachyPipeline_execute rt p w))) = client p"
  by (simp add: KachyPipeline_execute_def sent_by_execute_def pipeline_length_def
        split: prod.splits sum.splits)

text \<open>
  C4, worked example: the example pipeline holds three commands before \<open>execute\<close> and none
  after it, although its second command fails; a fresh pipeline executes to the empty
  list without touching the transport.
\<close>

theorem C4_clear_witness:
  "pipeline_length example_pipeline = 3
   \<and> pipeline_length (fst (snd (KachyPipeline_execute (example_runtime Map.empty)
                                   example_pipeline ([], 0)))) = 0
   \<and> KachyPipeline_execute (example_runtime Map.empty) (pipeline example_client) ([], 0)
       = (Inr [], pipeline example_client, ([], 0))"
proof -
  have e: "(pipeline example_client)\<lparr>commands := []\<rparr> = pipeline example_client"
    by (simp add: pipeline_def KachyPipeline_new_def)
  have l: "pipeline_length example_pipeline = 3"
    by (simp add: pipeline_length_def example_pipeline_eq)
  note a = C4_execute_clears_the_queue
    [where p = example_pipeline and w = "([], 0)" and rt = "example_runtime Map.empty",
     THEN conjunct2, THEN conjunct2, THEN conjunct2, THEN conjunct1]
  note b = C4_execute_clears_the_queue
    [where p = "pipeline example_client" and w = "([], 0)" and rt = "example_runtime Map.empty",
     THEN conjunct1, unfolded e]
  show ?thesis
    by (intro conjI l a b)
qed

text \<open>
  C10. Queuing \<open>set(key, value, seconds)\<close> on a pipeline appends the command \<open>SET\<close> with
  the arguments \<open>[key, value, seconds]\<close>; executing it sends a POST to \<open>/valkey/exec\<close>
  with the body \<open>{command: 'SET', args: [key, value, seconds]}\<close>, whereas the client's own
  \<open>set\<close> sends a POST to \<open>/valkey/set\<close> with the body \<open>{key, value, ex: seconds}\<close>.
\<close>

theorem C10_pipeline_set_goes_through_exec:
  "commands (KachyPipeline_set p key val (Some n))
     = commands p @ [\<lparr>command = ''SET'', args = [JStr key, JStr val, JNum n]\<rparr>]
   \<and> map asks
       (sent_by_execute
          (KachyPipeline_execute rt
             (KachyPipeline_set (pipeline (KachyClient_new rt (recording t) cfg)) key val (Some n))
             ([], w)))
     = [(POST, ''/valkey/exec'',
         Some (JObj [(''command'', JStr ''SET''), (''args'', JArr [JStr key, JStr val, JNum n])]))]
   \<and> map asks (sent (KachyClient_set (KachyClient_new rt (recording t) cfg) key val (Some n) ([], w)))
     = [(POST, ''/valkey/set'',
         Some (JObj [(''key'', JStr key), (''value'', JStr val), (''ex'', JNum n)]))]"
proof -
  have a: "commands (KachyPipeline_set p key val (Some n))
     = commands p @ [\<lparr>command = ''SET'', args = [JStr key, JStr val, JNum n]\<rparr>]"
    by (simp add: KachyPipeline_set_def push_def)
  have q: "KachyPipeline_set (pipeline (KachyClient_new rt (recording t) cfg)) key val (Some n)
             = \<lparr>client = KachyClient_new rt (recording t) cfg,
                commands = [\<lparr>command = ''SET'', args = [JStr key, JStr val, JNum n]\<rparr>]\<rparr>"
    by (simp add: KachyPipeline_set_def push_def pipeline_def KachyPipeline_new_def)
  have b: "map asks
       (sent_by_execute
          (KachyPipeline_execute rt
             (KachyPipeline_set (pipeline (KachyClient_new rt (recording t) cfg)) key val (Some n))
             ([], w)))
     = [(POST, ''/valkey/exec'',
         Some (JObj [(''command'', JStr ''SET''), (''args'', JArr [JStr key, JStr val, JNum n])]))]"
    unfolding q
    by (simp add: execute_recording sent_by_execute_def asks_outgoing exec_args_def
          toUpperCase_SET)
  have c: "map asks (sent (KachyClient_set (KachyClient_new rt (recording t) cfg) key val (Some n)
                             ([], w)))
     = [(POST, ''/valkey/set'',
         Some (JObj [(''key'', JStr key), (''value'', JStr val), (''ex'', JNum n)]))]"
    by (simp add: KachyClient_set_def sent_request_field asks_outgoing)
  show ?thesis by (intro conjI a b c)
qed

text \<open>
  C10, worked example: \<open>set('session:abc', 'active', 3600)\<close> through a pipeline and through
  the client.
\<close>

theorem C10_pipeline_set_witness:
  "map asks
     (sent_by_execute
        (KachyPipeline_execute (example_runtime Map.empty)
           (KachyPipeline_set (pipeline example_client) ''session:abc'' ''active'' (Some (Num 3600)))
           ([], 0)))
     = [(POST, ''/valkey/exec'',
         Some (JObj [(''command'', JStr ''SET''),
                     (''args'', JArr [JStr ''session:abc'', JStr ''active'', JNum (Num 3600)])]))]
   \<and> map asks (sent (KachyClient_set example_client ''session:abc'' ''active'' (Some (Num 3600))
                        ([], 0)))
     = [(POST, ''/valkey/set'',
         Some (JObj [(''key'', JStr ''session:abc''), (''value'', JStr ''active''),
                     (''ex'', JNum (Num 3600))]))]"
  unfolding example_client_def
  by (rule C10_pipeline_set_goes_through_exec
        [where rt = "example_runtime Map.empty" and t = example_server and cfg = example_config
           and key = "''session:abc''" and val = "''active''" and n = "Num 3600" and w = 0,
         THEN conjunct2])

section \<open>Snapshot of a configuration\<close>

text \<open>
  C9. \<open>toObject\<close> returns an object with the configuration's seven scalar fields and a
  \<open>headers\<close> reference that is new: the object behind it holds the same headers as the
  configuration's, every object already in the store is unchanged, and assigning or
  deleting a property through the snapshot's reference changes the snapshot's headers
  and leaves the configuration's headers as they were.
\<close>

theorem C9_toObject_copies_headers:
  assumes v: "headers this < length s" and t: "toObject this s = (snap, s')"
  shows "accessKey snap = accessKey this \<and> baseUrl snap = baseUrl this
       \<and> timeout snap = timeout this \<and> maxRetries snap = maxRetries this
       \<and> retryDelay snap = retryDelay this \<and> poolSize snap = poolSize this
       \<and> userAgent snap = userAgent this
       \<and> s' ! headers snap = s ! headers this
       \<and> headers snap \<noteq> headers this
       \<and> (\<forall>r < length s. s' ! r = s ! r)
       \<and> set_property (headers snap) k x s' ! headers snap = (s ! headers this)(k \<mapsto> x)
       \<and> set_property (headers snap) k x s' ! headers this = s ! headers this
       \<and> delete_property (headers snap) k s' ! headers snap = (s ! headers this)(k := None)
       \<and> delete_property (headers snap) k s' ! headers this = s ! headers this"
proof -
  from t have snap: "snap = \<lparr>accessKey = accessKey this, baseUrl = baseUrl this,
       timeout = timeout this, maxRetries = maxRetries this, retryDelay = retryDelay this,
       poolSize = poolSize this, userAgent = userAgent this, headers = length s\<rparr>"
    and s': "s' = s @ [s ! headers this]"
    by (simp_all add: toObject_def)
  have h: "headers snap = length s" by (simp add: snap)
  show ?thesis
    using v by (simp add: h s' set_property_def delete_property_def nth_append) (simp add: snap)
qed

text \<open>
  C9, worked example: a snapshot of a configuration whose headers are the default set;
  adding \<open>X-Debug\<close> to the snapshot's headers does not add it to the configuration's.
\<close>

theorem C9_toObject_witness:
  "headers example_ref_config < length example_store
   \<and> toObject example_ref_config example_store
       = (example_ref_config\<lparr>headers := 1\<rparr>, example_store @ example_store)
   \<and> (set_property 1 ''X-Debug'' ''on'' (example_store @ example_store) ! 1) ''X-Debug''
       = Some ''on''
   \<and> (set_property 1 ''X-Debug'' ''on'' (example_store @ example_store) ! 0) ''X-Debug'' = None
   \<and> set_property 1 ''X-Debug'' ''on'' (example_store @ example_store) ! 0
       = default_headers ''kachy-valkey-node/0.1.0''
   \<and> (example_store @ example_store) ! 1 = example_store ! 0"
proof -
  have v: "headers example_ref_config < length example_store"
    by (simp add: example_ref_config_def example_store_def)
  have t: "toObject example_ref_config example_store
             = (example_ref_config\<lparr>headers := 1\<rparr>, example_store @ example_store)"
    by (simp add: toObject_def example_ref_config_def example_store_def)
  note c = C9_toObject_copies_headers [OF v t, where k = "''X-Debug''" and x = "''on''"]
  have h: "headers (example_ref_config\<lparr>headers := 1\<rparr>) = 1" "headers example_ref_config = 0"
    by (simp_all add: example_ref_config_def)
  have d: "example_store ! 0 = default_headers ''kachy-valkey-node/0.1.0''"
    by (simp add: example_store_def)
  have "set_property 1 ''X-Debug'' ''on'' (example_store @ example_store) ! 1
          = (example_store ! 0)(''X-Debug'' \<mapsto> ''on'')"
    and "set_property 1 ''X-Debug'' ''on'' (example_store @ example_store) ! 0 = example_store ! 0"
    and "(example_store @ example_store) ! 1 = example_store ! 0"
    using c unfolding h by blast+
  then show ?thesis
    using v t by (simp add: d default_headers_def)
qed

end
